theory Spec2Isabelle
  imports Complex_Main "HOL-Library.AList" "HOL-Library.Char_ord" "HOL-Library.List_Lexorder"
begin

section \<open>Data model\<close>

text \<open>
  The embedding follows \<^verbatim>\<open>src/lib/timelineVisualizer.ts\<close>, the visualizer that draws on
  a canvas and holds one resolved timeline.

  A JavaScript number is modelled as a \<^typ>\<open>real\<close>: the finite values are kept and their
  arithmetic is exact, so \<^verbatim>\<open>NaN\<close>, the infinities and rounding are outside the model;
  where the source divides, the model is the source as long as the divisor is not
  \<^verbatim>\<open>0\<close>. A value that may be \<^verbatim>\<open>null\<close> or \<^verbatim>\<open>undefined\<close> is an \<^typ>\<open>'a option\<close>.

  A JavaScript object used as a dictionary is an association list with distinct keys: a
  dictionary the visualizer receives is in the order of \<^verbatim>\<open>Object.keys\<close>, one it builds
  is in the order of insertion (JavaScript lists the keys that are array indices first;
  no property below depends on the order of a dictionary the visualizer builds). Objects
  are values: two schedules share no instance, as it is in \<^verbatim>\<open>updateTimeline\<close>, where one of
  them is made of clones.

  Values the visualizer never looks into (\<^verbatim>\<open>content\<close>, \<^verbatim>\<open>enable\<close>, \<^verbatim>\<open>classes\<close>,
  \<^verbatim>\<open>options\<close>, \<^verbatim>\<open>statistics\<close>) have the type parameter \<^typ>\<open>'v\<close>; of an instance and of
  a resolved object the fields below are kept.
\<close>

text \<open>\<^verbatim>\<open>TimelineObjectInstance\<close>: \<^verbatim>\<open>id\<close>, \<^verbatim>\<open>start\<close> and the nullable \<^verbatim>\<open>end\<close>.\<close>

record Instance =
  inst_id :: string
  start :: real
  end' :: "real option"

text \<open>The \<^verbatim>\<open>resolved\<close> block of a \<^verbatim>\<open>ResolvedTimelineObject\<close>.\<close>

record ResolvedBlock =
  instances :: "Instance list"
  levelDeep :: nat
  resolvedFlag :: bool
  resolving :: bool

record 'v ResolvedTimelineObject =
  content :: 'v
  enable :: 'v
  obj_id :: string
  layer :: string
  resolved :: ResolvedBlock

record 'v ResolvedTimeline =
  classes :: 'v
  layers :: "(string \<times> string list) list"
  objects :: "(string \<times> 'v ResolvedTimelineObject) list"
  options :: 'v
  statistics :: 'v

text \<open>\<^verbatim>\<open>TrimProperties\<close>: both bounds are optional.\<close>

record TrimProperties =
  trim_start :: "real option"
  trim_end :: "real option"

section \<open>Trimming a resolved timeline\<close>

text \<open>
  \<^verbatim>\<open>x || Infinity\<close> on a nullable number: \<^verbatim>\<open>null\<close> and \<^verbatim>\<open>0\<close> are both falsy and
  give \<^verbatim>\<open>Infinity\<close>, which is \<^term>\<open>None\<close> in the result.
\<close>

fun orInfinity :: "real option \<Rightarrow> real option" where
  "orInfinity None = None"
| "orInfinity (Some x) = (if x = 0 then None else Some x)"

text \<open>Comparisons with a value of \<^const>\<open>orInfinity\<close>: \<^verbatim>\<open>e > t\<close>, \<^verbatim>\<open>s < e\<close>, \<^verbatim>\<open>e <= t\<close>.\<close>

fun inf_gt :: "real option \<Rightarrow> real \<Rightarrow> bool" where
  "inf_gt None t = True"
| "inf_gt (Some x) t = (x > t)"

fun lt_inf :: "real \<Rightarrow> real option \<Rightarrow> bool" where
  "lt_inf s None = True"
| "lt_inf s (Some x) = (s < x)"

fun inf_le :: "real option \<Rightarrow> real \<Rightarrow> bool" where
  "inf_le None t = False"
| "inf_le (Some x) t = (x \<le> t)"

text \<open>
  \<^verbatim>\<open>if (trim.start)\<close>: the bound is used when it is present and not \<^verbatim>\<open>0\<close>.
\<close>

fun truthy :: "real option \<Rightarrow> bool" where
  "truthy None = False"
| "truthy (Some x) = (x \<noteq> 0)"

text \<open>
  The two \<^verbatim>\<open>if\<close> blocks of the inner callback of \<^verbatim>\<open>trimTimeline\<close>, each from the pair
  \<^verbatim>\<open>(useInstance, newInstance)\<close> to the updated pair. The tests read the original
  \<^verbatim>\<open>instance\<close>, the clamps read and write the clone \<^verbatim>\<open>newInstance\<close>.
\<close>

definition trimStartStep :: "TrimProperties \<Rightarrow> Instance \<Rightarrow> bool \<times> Instance \<Rightarrow> bool \<times> Instance" where
  "trimStartStep trim instance st =
     (case st of (useInstance, newInstance) \<Rightarrow>
        if truthy (trim_start trim) then
          (if inf_gt (orInfinity (end' instance)) (the (trim_start trim)) then
             (True,
              if start newInstance < the (trim_start trim)
              then newInstance\<lparr>start := the (trim_start trim)\<rparr>
              else newInstance)
           else (useInstance, newInstance))
        else (useInstance, newInstance))"

definition trimEndStep :: "TrimProperties \<Rightarrow> Instance \<Rightarrow> bool \<times> Instance \<Rightarrow> bool \<times> Instance" where
  "trimEndStep trim instance st =
     (case st of (useInstance, newInstance) \<Rightarrow>
        if truthy (trim_end trim) then
          (if start instance < the (trim_end trim) then
             (True,
              if inf_gt (orInfinity (end' newInstance)) (the (trim_end trim))
              then newInstance\<lparr>end' := Some (the (trim_end trim))\<rparr>
              else newInstance)
           else (useInstance, newInstance))
        else (useInstance, newInstance))"

text \<open>
  The object literal built for the first surviving instance of an object. The source
  writes \<^verbatim>\<open>enable: obj.content\<close>.
\<close>

definition newObject :: "'v ResolvedTimelineObject \<Rightarrow> Instance \<Rightarrow> 'v ResolvedTimelineObject" where
  "newObject obj newInstance =
     \<lparr>content = content obj,
      enable = content obj,
      obj_id = obj_id obj,
      layer = layer obj,
      resolved = \<lparr>instances = [newInstance],
                  levelDeep = levelDeep (resolved obj),
                  resolvedFlag = resolvedFlag (resolved obj),
                  resolving = resolving (resolved obj)\<rparr>\<rparr>"

text \<open>\<^verbatim>\<open>newObjects[objId].resolved.instances.push(newInstance)\<close>\<close>

definition pushInstance :: "Instance \<Rightarrow> 'v ResolvedTimelineObject \<Rightarrow> 'v ResolvedTimelineObject" where
  "pushInstance newInstance obj =
     obj\<lparr>resolved := (resolved obj)\<lparr>instances := instances (resolved obj) @ [newInstance]\<rparr>\<rparr>"

text \<open>
  The callback of the inner \<^verbatim>\<open>forEach\<close>: one instance of \<^verbatim>\<open>obj\<close>, with the
  \<^verbatim>\<open>newObjects\<close> built so far. \<^const>\<open>AList.update\<close> replaces the entry of an existing
  key in place and appends a new key at the end, as a property assignment does.
\<close>

definition trimOne ::
  "TrimProperties \<Rightarrow> string \<Rightarrow> 'v ResolvedTimelineObject \<Rightarrow> Instance \<Rightarrow>
   (string \<times> 'v ResolvedTimelineObject) list \<Rightarrow> (string \<times> 'v ResolvedTimelineObject) list" where
  "trimOne trim objId obj instance newObjects =
     (case trimEndStep trim instance (trimStartStep trim instance (False, instance)) of
        (useInstance, newInstance) \<Rightarrow>
          if useInstance \<and> lt_inf (start newInstance) (orInfinity (end' newInstance)) then
            (case map_of newObjects objId of
               None \<Rightarrow> AList.update objId (newObject obj newInstance) newObjects
             | Some existing \<Rightarrow> AList.update objId (pushInstance newInstance existing) newObjects)
          else newObjects)"

text \<open>The callback of the outer \<^verbatim>\<open>forEach\<close>, over the keys of \<^verbatim>\<open>timeline.objects\<close>.\<close>

definition trimObject ::
  "TrimProperties \<Rightarrow> string \<times> 'v ResolvedTimelineObject \<Rightarrow>
   (string \<times> 'v ResolvedTimelineObject) list \<Rightarrow> (string \<times> 'v ResolvedTimelineObject) list" where
  "trimObject trim entry newObjects =
     fold (trimOne trim (fst entry) (snd entry)) (instances (resolved (snd entry))) newObjects"

definition trimTimeline :: "'v ResolvedTimeline \<Rightarrow> TrimProperties \<Rightarrow> 'v ResolvedTimeline" where
  "trimTimeline timeline trim =
     \<lparr>classes = classes timeline,
      layers = layers timeline,
      objects = fold (trimObject trim) (objects timeline) [],
      options = options timeline,
      statistics = statistics timeline\<rparr>"

text \<open>
  The instance \<open>inst\<close> survives the trim as \<open>newInstance\<close>: the test of the inner
  callback of \<^verbatim>\<open>trimTimeline\<close> before it stores the clone.
\<close>

definition survives :: "TrimProperties \<Rightarrow> Instance \<Rightarrow> Instance \<Rightarrow> bool" where
  "survives trim inst newInstance \<longleftrightarrow>
     trimEndStep trim inst (trimStartStep trim inst (False, inst)) = (True, newInstance) \<and>
     lt_inf (start newInstance) (orInfinity (end' newInstance))"

section \<open>Properties of trimming\<close>

lemma trimOne_unused:
  "\<not> truthy (trim_start trim) \<Longrightarrow> \<not> truthy (trim_end trim) \<Longrightarrow>
   trimOne trim objId obj instance newObjects = newObjects"
  by (simp add: trimOne_def trimStartStep_def trimEndStep_def)

lemma fold_unchanged: "(\<And>x acc. f x acc = acc) \<Longrightarrow> fold f xs acc = acc"
  by (induction xs arbitrary: acc) simp_all

lemma trimObject_unused:
  "\<not> truthy (trim_start trim) \<Longrightarrow> \<not> truthy (trim_end trim) \<Longrightarrow>
   trimObject trim entry newObjects = newObjects"
  unfolding trimObject_def by (rule fold_unchanged) (rule trimOne_unused)

lemma truthy_absent_or_zero: "b \<in> {None, Some 0} \<Longrightarrow> \<not> truthy b"
  by auto

text \<open>
  Example schedules: one object \<^verbatim>\<open>A\<close> on the layer \<^verbatim>\<open>0\<close> whose \<^verbatim>\<open>content\<close> and
  \<^verbatim>\<open>enable\<close> differ, with the given instances.
\<close>

definition exampleObject :: "Instance list \<Rightarrow> string ResolvedTimelineObject" where
  "exampleObject insts =
     \<lparr>content = ''video'', enable = ''while'', obj_id = ''A'', layer = ''0'',
      resolved = \<lparr>instances = insts, levelDeep = 0, resolvedFlag = True, resolving = False\<rparr>\<rparr>"

definition exampleTimeline :: "Instance list \<Rightarrow> string ResolvedTimeline" where
  "exampleTimeline insts =
     \<lparr>classes = ''{}'', layers = [(''0'', [''A''])], objects = [(''A'', exampleObject insts)],
      options = ''{}'', statistics = ''{}''\<rparr>"

text \<open>
  C4. When each of \<^verbatim>\<open>trim.start\<close> and \<^verbatim>\<open>trim.end\<close> is absent or \<^verbatim>\<open>0\<close>, neither
  bound is used, no instance is marked usable, and the returned schedule has an empty
  \<^verbatim>\<open>objects\<close> map, whatever the input schedule holds.
\<close>

theorem trimTimeline_zero_bounds_empty:
  assumes "trim_start trim \<in> {None, Some 0}" and "trim_end trim \<in> {None, Some 0}"
  shows "objects (trimTimeline timeline trim) = []"
proof -
  have "\<not> truthy (trim_start trim)" and "\<not> truthy (trim_end trim)"
    using assms by (auto dest: truthy_absent_or_zero)
  then have "fold (trimObject trim) (objects timeline) [] = []"
    by (intro fold_unchanged trimObject_unused)
  then show ?thesis by (simp add: trimTimeline_def)
qed

text \<open>
  The trim of \<^verbatim>\<open>updateTimeline\<close> at the initial playhead time, \<^verbatim>\<open>{ end: 0 }\<close>, on a
  schedule holding the instance \<^verbatim>\<open>[0, 10)\<close>.
\<close>

theorem trimTimeline_zero_bounds_empty_witness:
  "trim_start \<lparr>trim_start = None, trim_end = Some 0\<rparr> \<in> {None, Some 0} \<and>
   trim_end \<lparr>trim_start = None, trim_end = Some 0\<rparr> \<in> {None, Some 0} \<and>
   objects (exampleTimeline [\<lparr>inst_id = ''@A0'', start = 0, end' = Some 10\<rparr>]) \<noteq> [] \<and>
   objects (trimTimeline (exampleTimeline [\<lparr>inst_id = ''@A0'', start = 0, end' = Some 10\<rparr>])
              \<lparr>trim_start = None, trim_end = Some 0\<rparr>) = []"
  using trimTimeline_zero_bounds_empty
          [of "\<lparr>trim_start = None, trim_end = Some 0\<rparr>"
              "exampleTimeline [\<lparr>inst_id = ''@A0'', start = 0, end' = Some 10\<rparr>]"]
  by (simp add: exampleTimeline_def)

lemmas trim_defs =
  trimTimeline_def trimObject_def trimOne_def trimStartStep_def trimEndStep_def
  newObject_def pushInstance_def exampleTimeline_def exampleObject_def

text \<open>
  What holds of every object that \<^verbatim>\<open>trimTimeline\<close> returns: a property \<open>R\<close> that the
  object built for a first surviving instance has, and that the push of a further
  surviving instance keeps.
\<close>

lemma set_update_subset: "set (AList.update k v al) \<subseteq> insert (k, v) (set al)"
  by (induction al) auto

lemma trimOne_entries:
  assumes acc: "\<And>k obj'. (k, obj') \<in> set newObjects \<Longrightarrow> R k obj'"
    and new: "\<And>newInstance. survives trim inst newInstance \<Longrightarrow> R objId (newObject obj newInstance)"
    and push: "\<And>newInstance existing. survives trim inst newInstance \<Longrightarrow> R objId existing \<Longrightarrow>
                 R objId (pushInstance newInstance existing)"
    and mem: "(k, obj') \<in> set (trimOne trim objId obj inst newObjects)"
  shows "R k obj'"
proof -
  obtain useInstance newInstance where
    step: "trimEndStep trim inst (trimStartStep trim inst (False, inst)) = (useInstance, newInstance)"
    by (cases "trimEndStep trim inst (trimStartStep trim inst (False, inst))")
  show ?thesis
  proof (cases "useInstance \<and> lt_inf (start newInstance) (orInfinity (end' newInstance))")
    case False
    then have "trimOne trim objId obj inst newObjects = newObjects"
      using step by (auto simp: trimOne_def)
    then show ?thesis using acc mem by simp
  next
    case True
    then have s: "survives trim inst newInstance" using step by (simp add: survives_def)
    show ?thesis
    proof (cases "map_of newObjects objId")
      case None
      then have "trimOne trim objId obj inst newObjects
                   = AList.update objId (newObject obj newInstance) newObjects"
        using True step by (simp add: trimOne_def)
      then have "(k, obj') = (objId, newObject obj newInstance) \<or> (k, obj') \<in> set newObjects"
        using mem set_update_subset [of objId "newObject obj newInstance" newObjects] by auto
      then show ?thesis using acc new [OF s] by auto
    next
      case (Some existing)
      then have "(objId, existing) \<in> set newObjects" by (rule map_of_SomeD)
      then have pushed: "R objId (pushInstance newInstance existing)" using acc push [OF s] by blast
      have "trimOne trim objId obj inst newObjects
              = AList.update objId (pushInstance newInstance existing) newObjects"
        using True step Some by (simp add: trimOne_def)
      then have "(k, obj') = (objId, pushInstance newInstance existing) \<or> (k, obj') \<in> set newObjects"
        using mem set_update_subset [of objId "pushInstance newInstance existing" newObjects] by auto
      then show ?thesis using acc pushed by auto
    qed
  qed
qed

lemma fold_trimOne_entries:
  assumes acc: "\<And>k obj'. (k, obj') \<in> set newObjects \<Longrightarrow> R k obj'"
    and new: "\<And>inst newInstance. inst \<in> set insts \<Longrightarrow> survives trim inst newInstance \<Longrightarrow>
                R objId (newObject obj newInstance)"
    and push: "\<And>inst newInstance existing. inst \<in> set insts \<Longrightarrow> survives trim inst newInstance \<Longrightarrow>
                 R objId existing \<Longrightarrow> R objId (pushInstance newInstance existing)"
    and mem: "(k, obj') \<in> set (fold (trimOne trim objId obj) insts newObjects)"
  shows "R k obj'"
  using acc new push mem
proof (induction insts arbitrary: newObjects)
  case Nil
  then show ?case by simp
next
  case (Cons inst insts)
  have step: "R k' o'" if "(k', o') \<in> set (trimOne trim objId obj inst newObjects)" for k' o'
  proof (rule trimOne_entries [where R = R, OF _ _ _ that])
    show "R k2 o2" if "(k2, o2) \<in> set newObjects" for k2 o2
      using that Cons.prems(1) by blast
    show "R objId (newObject obj newInstance)" if "survives trim inst newInstance" for newInstance
      using that Cons.prems(2) [of inst] by simp
    show "R objId (pushInstance newInstance existing)"
      if "survives trim inst newInstance" and "R objId existing" for newInstance existing
      using that Cons.prems(3) [of inst] by simp
  qed
  show ?case
  proof (rule Cons.IH [of "trimOne trim objId obj inst newObjects"])
    show "R k2 o2" if "(k2, o2) \<in> set (trimOne trim objId obj inst newObjects)" for k2 o2
      using that step by blast
    show "R objId (newObject obj newInstance)"
      if "i \<in> set insts" and "survives trim i newInstance" for i newInstance
      using that Cons.prems(2) [of i] by simp
    show "R objId (pushInstance newInstance existing)"
      if "i \<in> set insts" and "survives trim i newInstance" and "R objId existing"
      for i newInstance existing
      using that Cons.prems(3) [of i] by simp
    show "(k, obj') \<in> set (fold (trimOne trim objId obj) insts (trimOne trim objId obj inst newObjects))"
      using Cons.prems(4) by simp
  qed
qed

lemma fold_trimObject_entries:
  assumes acc: "\<And>k obj'. (k, obj') \<in> set newObjects \<Longrightarrow> R k obj'"
    and new: "\<And>objId obj inst newInstance.
                (objId, obj) \<in> set entries \<Longrightarrow> inst \<in> set (instances (resolved obj)) \<Longrightarrow>
                survives trim inst newInstance \<Longrightarrow> R objId (newObject obj newInstance)"
    and push: "\<And>objId obj inst newInstance existing.
                 (objId, obj) \<in> set entries \<Longrightarrow> inst \<in> set (instances (resolved obj)) \<Longrightarrow>
                 survives trim inst newInstance \<Longrightarrow> R objId existing \<Longrightarrow>
                 R objId (pushInstance newInstance existing)"
    and mem: "(k, obj') \<in> set (fold (trimObject trim) entries newObjects)"
  shows "R k obj'"
  using acc new push mem
proof (induction entries arbitrary: newObjects)
  case Nil
  then show ?case by simp
next
  case (Cons entry entries)
  have here: "(fst entry, snd entry) \<in> set (entry # entries)" by simp
  have step: "R k' o'" if "(k', o') \<in> set (trimObject trim entry newObjects)" for k' o'
  proof (rule fold_trimOne_entries [where R = R and insts = "instances (resolved (snd entry))"
                                      and objId = "fst entry" and obj = "snd entry"
                                      and newObjects = newObjects])
    show "R k2 o2" if "(k2, o2) \<in> set newObjects" for k2 o2
      using that Cons.prems(1) by blast
    show "R (fst entry) (newObject (snd entry) newInstance)"
      if "i \<in> set (instances (resolved (snd entry)))" and "survives trim i newInstance"
      for i newInstance
      using that Cons.prems(2) [OF here] by blast
    show "R (fst entry) (pushInstance newInstance existing)"
      if "i \<in> set (instances (resolved (snd entry)))" and "survives trim i newInstance"
        and "R (fst entry) existing" for i newInstance existing
      using that Cons.prems(3) [OF here] by blast
    show "(k', o') \<in> set (fold (trimOne trim (fst entry) (snd entry))
                             (instances (resolved (snd entry))) newObjects)"
      using that by (simp add: trimObject_def)
  qed
  show ?case
  proof (rule Cons.IH [of "trimObject trim entry newObjects"])
    show "R k2 o2" if "(k2, o2) \<in> set (trimObject trim entry newObjects)" for k2 o2
      using that step by blast
    show "R objId (newObject obj newInstance)"
      if "(objId, obj) \<in> set entries" and "i \<in> set (instances (resolved obj))"
        and "survives trim i newInstance" for objId obj i newInstance
      using that Cons.prems(2) [of objId obj i newInstance] by simp
    show "R objId (pushInstance newInstance existing)"
      if "(objId, obj) \<in> set entries" and "i \<in> set (instances (resolved obj))"
        and "survives trim i newInstance" and "R objId existing"
      for objId obj i newInstance existing
      using that Cons.prems(3) [of objId obj i newInstance existing] by simp
    show "(k, obj') \<in> set (fold (trimObject trim) entries (trimObject trim entry newObjects))"
      using Cons.prems(4) by simp
  qed
qed

text \<open>
  With a start bound \<open>T\<close> and no end bound, on a schedule in which no instance has the
  end \<^verbatim>\<open>0\<close>, every instance of the result starts at or after \<open>T\<close> and ends, if it has
  an end, after \<open>T\<close>.
\<close>

lemma survives_from_start:
  assumes "survives \<lparr>trim_start = Some T, trim_end = None\<rparr> inst newInstance"
    and "end' inst \<noteq> Some 0"
  shows "T \<le> start newInstance \<and> (\<forall>e. end' newInstance = Some e \<longrightarrow> T < e)"
  using assms
  by (cases "end' inst")
     (auto simp: survives_def trimStartStep_def trimEndStep_def split: if_splits)

lemma trimTimeline_start_bound:
  assumes "\<And>k obj i. (k, obj) \<in> set (objects timeline) \<Longrightarrow> i \<in> set (instances (resolved obj)) \<Longrightarrow>
             end' i \<noteq> Some 0"
    and "(k, obj') \<in> set (objects (trimTimeline timeline \<lparr>trim_start = Some T, trim_end = None\<rparr>))"
    and "i \<in> set (instances (resolved obj'))"
  shows "T \<le> start i \<and> (\<forall>e. end' i = Some e \<longrightarrow> T < e)"
proof -
  let ?ok = "\<lambda>i. T \<le> start i \<and> (\<forall>e. end' i = Some e \<longrightarrow> T < e)"
  have "\<forall>i \<in> set (instances (resolved obj')). ?ok i"
  proof (rule fold_trimObject_entries
           [where R = "\<lambda>k obj'. \<forall>i \<in> set (instances (resolved obj')). ?ok i"
              and entries = "objects timeline" and newObjects = "[]"
              and trim = "\<lparr>trim_start = Some T, trim_end = None\<rparr>" and k = k])
    show "(k, obj') \<in> set (fold (trimObject \<lparr>trim_start = Some T, trim_end = None\<rparr>)
                              (objects timeline) [])"
      using assms(2) by (simp add: trimTimeline_def)
  next
    fix objId and obj :: "'a ResolvedTimelineObject" and inst newInstance
    assume "(objId, obj) \<in> set (objects timeline)" "inst \<in> set (instances (resolved obj))"
      and "survives \<lparr>trim_start = Some T, trim_end = None\<rparr> inst newInstance"
    then have "?ok newInstance" using survives_from_start assms(1) by blast
    then show "\<forall>i \<in> set (instances (resolved (newObject obj newInstance))). ?ok i"
      by (simp add: newObject_def)
  next
    fix objId and obj existing :: "'a ResolvedTimelineObject" and inst newInstance
    assume "(objId, obj) \<in> set (objects timeline)" "inst \<in> set (instances (resolved obj))"
      and "survives \<lparr>trim_start = Some T, trim_end = None\<rparr> inst newInstance"
      and ex: "\<forall>i \<in> set (instances (resolved existing)). ?ok i"
    then have "?ok newInstance" using survives_from_start assms(1) by blast
    then show "\<forall>i \<in> set (instances (resolved (pushInstance newInstance existing))). ?ok i"
      using ex by (simp add: pushInstance_def)
  qed simp
  then show ?thesis using assms(3) by blast
qed


text \<open>
  C3. The claim is that \<^verbatim>\<open>trim(schedule, {start: T})\<close> holds no instance with a non-null
  \<^verbatim>\<open>end \<le> T\<close>. The source tests \<^verbatim>\<open>(instance.end || Infinity) > trim.start\<close>, which
  reads an \<^verbatim>\<open>end\<close> of \<^verbatim>\<open>0\<close> as open-ended: the instance \<^verbatim>\<open>[-5, 0)\<close> trimmed with
  \<^verbatim>\<open>{start: 3}\<close> survives, with its start raised to \<^verbatim>\<open>3\<close> and its end still \<^verbatim>\<open>0\<close>.
\<close>

theorem trimTimeline_start_keeps_end_zero:
  "map (\<lambda>entry. (fst entry, instances (resolved (snd entry))))
     (objects (trimTimeline (exampleTimeline [\<lparr>inst_id = ''@A0'', start = - 5, end' = Some 0\<rparr>])
                 \<lparr>trim_start = Some 3, trim_end = None\<rparr>))
   = [(''A'', [\<lparr>inst_id = ''@A0'', start = 3, end' = Some 0\<rparr>])]"
  by (simp add: trim_defs)

text \<open>
  Every object of the result stands for an object of the input under the same key, with
  its \<^verbatim>\<open>id\<close>, its \<^verbatim>\<open>layer\<close> and its \<^verbatim>\<open>content\<close>; its \<^verbatim>\<open>enable\<close> is the \<^verbatim>\<open>content\<close>
  of that object.
\<close>

lemma trimTimeline_keeps_definition:
  assumes "(k, obj') \<in> set (objects (trimTimeline timeline trim))"
  shows "\<exists>obj. (k, obj) \<in> set (objects timeline) \<and>
               obj_id obj' = obj_id obj \<and> layer obj' = layer obj \<and>
               content obj' = content obj \<and> enable obj' = content obj"
proof (rule fold_trimObject_entries
         [where R = "\<lambda>k obj'. \<exists>obj. (k, obj) \<in> set (objects timeline) \<and>
                       obj_id obj' = obj_id obj \<and> layer obj' = layer obj \<and>
                       content obj' = content obj \<and> enable obj' = content obj"
            and entries = "objects timeline" and newObjects = "[]" and trim = trim])
  show "(k, obj') \<in> set (fold (trimObject trim) (objects timeline) [])"
    using assms by (simp add: trimTimeline_def)
qed (auto simp: newObject_def pushInstance_def)

text \<open>
  C8. The claim is that a surviving object keeps its \<^verbatim>\<open>id\<close>, \<^verbatim>\<open>layer\<close>, \<^verbatim>\<open>content\<close> and
  \<^verbatim>\<open>enable\<close>. The source builds the surviving object with \<^verbatim>\<open>enable: obj.content\<close>: the
  object \<^verbatim>\<open>A\<close>, whose \<^verbatim>\<open>enable\<close> differs from its \<^verbatim>\<open>content\<close>, comes out of the trim
  \<^verbatim>\<open>{end: 5}\<close> with its \<^verbatim>\<open>content\<close> in both fields.
\<close>

theorem trimTimeline_enable_is_content:
  "map (\<lambda>entry. (fst entry, obj_id (snd entry), layer (snd entry), content (snd entry), enable (snd entry)))
     (objects (exampleTimeline [\<lparr>inst_id = ''@A0'', start = 0, end' = Some 10\<rparr>]))
   = [(''A'', ''A'', ''0'', ''video'', ''while'')] \<and>
   map (\<lambda>entry. (fst entry, obj_id (snd entry), layer (snd entry), content (snd entry), enable (snd entry)))
     (objects (trimTimeline (exampleTimeline [\<lparr>inst_id = ''@A0'', start = 0, end' = Some 10\<rparr>])
                 \<lparr>trim_start = None, trim_end = Some 5\<rparr>))
   = [(''A'', ''A'', ''0'', ''video'', ''video'')]"
  by (simp add: trim_defs)

section \<open>Merging two resolved timelines\<close>

text \<open>
  \<^verbatim>\<open>mergeTimelineObjects\<close> first stitches touching instances, mutating both arguments
  in place, then returns \<^verbatim>\<open>merge(past, present)\<close> of the library \<^verbatim>\<open>lodash.merge\<close>.

  The callback of the inner \<^verbatim>\<open>forEach\<close>, over the instances of the present object, for
  one \<^verbatim>\<open>pastInstance\<close>. On a match the present instance takes the start of the past
  instance and the source calls
  \<^verbatim>\<open>pastObj.resolved.instances.splice(pastObj.resolved.instances.indexOf(presentInstance), 1)\<close>.
  The schedules are values here, so the array of past instances never holds the present
  instance itself (in \<^verbatim>\<open>updateTimeline\<close> the past instances are the clones made by
  \<^verbatim>\<open>trimTimeline\<close>): \<^verbatim>\<open>indexOf\<close> is \<^verbatim>\<open>-1\<close>, and \<^verbatim>\<open>splice(-1, 1)\<close> removes the last
  element of the array, or nothing when it is empty, which is \<^const>\<open>butlast\<close>. The result
  is the pair of the present instances and the past instances after the loop.
\<close>

fun stitchPresent :: "Instance \<Rightarrow> Instance list \<Rightarrow> Instance list \<Rightarrow> Instance list \<times> Instance list" where
  "stitchPresent pastInstance [] pastInstances = ([], pastInstances)"
| "stitchPresent pastInstance (presentInstance # rest) pastInstances =
     (if end' pastInstance = Some (start presentInstance) then
        (case stitchPresent pastInstance rest (butlast pastInstances) of
           (rest', pastInstances') \<Rightarrow>
             (presentInstance\<lparr>start := start pastInstance\<rparr> # rest', pastInstances'))
      else
        (case stitchPresent pastInstance rest pastInstances of
           (rest', pastInstances') \<Rightarrow> (presentInstance # rest', pastInstances')))"

text \<open>
  The outer \<^verbatim>\<open>forEach\<close>, over the past instances. \<^verbatim>\<open>forEach\<close> reads the length once
  and then visits the indices \<^verbatim>\<open>k\<close> below it that the array still has, reading the
  element at \<^verbatim>\<open>k\<close> at that moment: the first argument counts the indices left to
  visit. The result is the pair of the past and the present instances.
\<close>

fun stitchPast :: "nat \<Rightarrow> nat \<Rightarrow> Instance list \<Rightarrow> Instance list \<Rightarrow> Instance list \<times> Instance list" where
  "stitchPast 0 k pastInstances presentInstances = (pastInstances, presentInstances)"
| "stitchPast (Suc n) k pastInstances presentInstances =
     (if k < length pastInstances then
        (case stitchPresent (pastInstances ! k) presentInstances pastInstances of
           (presentInstances', pastInstances') \<Rightarrow>
             stitchPast n (Suc k) pastInstances' presentInstances')
      else stitchPast n (Suc k) pastInstances presentInstances)"

text \<open>
  \<^verbatim>\<open>isEqual\<close> of the two objects with \<^verbatim>\<open>resolved\<close> set to \<^verbatim>\<open>null\<close> on both sides.
\<close>

definition sameDefinition :: "'v ResolvedTimelineObject \<Rightarrow> 'v ResolvedTimelineObject \<Rightarrow> bool" where
  "sameDefinition pastObj presentObj \<longleftrightarrow>
     content pastObj = content presentObj \<and> enable pastObj = enable presentObj \<and>
     obj_id pastObj = obj_id presentObj \<and> layer pastObj = layer presentObj"

definition setInstances :: "Instance list \<Rightarrow> 'v ResolvedTimelineObject \<Rightarrow> 'v ResolvedTimelineObject" where
  "setInstances insts obj = obj\<lparr>resolved := (resolved obj)\<lparr>instances := insts\<rparr>\<rparr>"

text \<open>
  The callback of \<^verbatim>\<open>Object.keys(past.objects).forEach\<close>, on the pair of the objects of
  \<^verbatim>\<open>past\<close> and of \<^verbatim>\<open>present\<close>.
\<close>

definition stitchObject ::
  "string \<Rightarrow>
   (string \<times> 'v ResolvedTimelineObject) list \<times> (string \<times> 'v ResolvedTimelineObject) list \<Rightarrow>
   (string \<times> 'v ResolvedTimelineObject) list \<times> (string \<times> 'v ResolvedTimelineObject) list" where
  "stitchObject objId st =
     (case st of (pastObjects, presentObjects) \<Rightarrow>
        (case map_of pastObjects objId of
           None \<Rightarrow> st
         | Some pastObj \<Rightarrow>
             (case map_of presentObjects objId of
                None \<Rightarrow> st
              | Some presentObj \<Rightarrow>
                  if sameDefinition pastObj presentObj then
                    (case stitchPast (length (instances (resolved pastObj))) 0
                            (instances (resolved pastObj)) (instances (resolved presentObj)) of
                       (pastInstances, presentInstances) \<Rightarrow>
                         (AList.update objId (setInstances pastInstances pastObj) pastObjects,
                          AList.update objId (setInstances presentInstances presentObj) presentObjects))
                  else st)))"

text \<open>
  \<^verbatim>\<open>lodash.merge(object, source)\<close>, from the documentation of the library: the own
  properties of the source are merged into the destination, arrays and plain objects
  recursively (an array index by index, an object key by key), and any other value of the
  source that is not \<^verbatim>\<open>undefined\<close> is assigned. The merge of two values the visualizer
  never looks into is the parameter \<open>mergeValue\<close>. The fields of an instance are all
  defined in the source instance (a \<^verbatim>\<open>null\<close> end is assigned too). The content and
  the enable of an object are merged here as two separate values. In an object that
  \<^verbatim>\<open>trimTimeline\<close> has built they are one and the same JavaScript object, which the
  library then merges in place twice; what that leaves in the two fields is not followed
  here, and the statements below about the merge are about the instances only.
\<close>

definition mergeInstance :: "Instance \<Rightarrow> Instance \<Rightarrow> Instance" where
  "mergeInstance object source =
     object\<lparr>inst_id := inst_id source, start := start source, end' := end' source\<rparr>"

fun mergeInstances :: "Instance list \<Rightarrow> Instance list \<Rightarrow> Instance list" where
  "mergeInstances [] source = source"
| "mergeInstances (a # object) [] = a # object"
| "mergeInstances (a # object) (b # source) = mergeInstance a b # mergeInstances object source"

fun mergeArray :: "'a list \<Rightarrow> 'a list \<Rightarrow> 'a list" where
  "mergeArray [] source = source"
| "mergeArray (a # object) [] = a # object"
| "mergeArray (a # object) (b # source) = b # mergeArray object source"

definition mergeObject ::
  "('v \<Rightarrow> 'v \<Rightarrow> 'v) \<Rightarrow> 'v ResolvedTimelineObject \<Rightarrow> 'v ResolvedTimelineObject \<Rightarrow>
   'v ResolvedTimelineObject" where
  "mergeObject mergeValue object source =
     \<lparr>content = mergeValue (content object) (content source),
      enable = mergeValue (enable object) (enable source),
      obj_id = obj_id source,
      layer = layer source,
      resolved = \<lparr>instances = mergeInstances (instances (resolved object)) (instances (resolved source)),
                  levelDeep = levelDeep (resolved source),
                  resolvedFlag = resolvedFlag (resolved source),
                  resolving = resolving (resolved source)\<rparr>\<rparr>"

text \<open>
  The merge of two dictionaries, for one key of the source: a key the destination has is
  merged in place by \<open>f\<close>, a new key is appended.
\<close>

definition mergeKey ::
  "('a \<Rightarrow> 'a \<Rightarrow> 'a) \<Rightarrow> (string \<times> 'a) list \<Rightarrow> string \<Rightarrow> (string \<times> 'a) list \<Rightarrow> (string \<times> 'a) list" where
  "mergeKey f source key object =
     (case map_of source key of
        None \<Rightarrow> object
      | Some b \<Rightarrow>
          (case map_of object key of
             None \<Rightarrow> AList.update key b object
           | Some a \<Rightarrow> AList.update key (f a b) object))"

definition mergeDict ::
  "('a \<Rightarrow> 'a \<Rightarrow> 'a) \<Rightarrow> (string \<times> 'a) list \<Rightarrow> (string \<times> 'a) list \<Rightarrow> (string \<times> 'a) list" where
  "mergeDict f object source = fold (mergeKey f source) (map fst source) object"

definition lodashMerge ::
  "('v \<Rightarrow> 'v \<Rightarrow> 'v) \<Rightarrow> 'v ResolvedTimeline \<Rightarrow> 'v ResolvedTimeline \<Rightarrow> 'v ResolvedTimeline" where
  "lodashMerge mergeValue object source =
     \<lparr>classes = mergeValue (classes object) (classes source),
      layers = mergeDict mergeArray (layers object) (layers source),
      objects = mergeDict (mergeObject mergeValue) (objects object) (objects source),
      options = mergeValue (options object) (options source),
      statistics = mergeValue (statistics object) (statistics source)\<rparr>"

definition mergeTimelineObjects ::
  "('v \<Rightarrow> 'v \<Rightarrow> 'v) \<Rightarrow> 'v ResolvedTimeline \<Rightarrow> 'v ResolvedTimeline \<Rightarrow> 'v ResolvedTimeline" where
  "mergeTimelineObjects mergeValue past present =
     (case fold stitchObject (map fst (objects past)) (objects past, objects present) of
        (pastObjects, presentObjects) \<Rightarrow>
          lodashMerge mergeValue (past\<lparr>objects := pastObjects\<rparr>) (present\<lparr>objects := presentObjects\<rparr>))"

text \<open>
  The state of the stitching loop at one object id: both schedules hold the object, with
  the same definition and with the given instances.
\<close>

definition heldAt ::
  "string \<Rightarrow> Instance list \<Rightarrow> Instance list \<Rightarrow>
   (string \<times> 'v ResolvedTimelineObject) list \<times> (string \<times> 'v ResolvedTimelineObject) list \<Rightarrow> bool" where
  "heldAt objId pastInstances presentInstances st \<longleftrightarrow>
     (\<exists>pastObj presentObj.
        map_of (fst st) objId = Some pastObj \<and> map_of (snd st) objId = Some presentObj \<and>
        sameDefinition pastObj presentObj \<and>
        instances (resolved pastObj) = pastInstances \<and>
        instances (resolved presentObj) = presentInstances)"

section \<open>Properties of merging\<close>

lemma sameDefinition_setInstances:
  "sameDefinition (setInstances a p) (setInstances b q) = sameDefinition p q"
  by (simp add: sameDefinition_def setInstances_def)

lemma instances_setInstances: "instances (resolved (setInstances a p)) = a"
  by (simp add: setInstances_def)

lemma stitchObject_other:
  "k \<noteq> objId \<Longrightarrow> heldAt objId a b st \<Longrightarrow> heldAt objId a b (stitchObject k st)"
  by (cases st) (auto simp: heldAt_def stitchObject_def update_conv' split: option.splits prod.splits)

lemma stitchObject_touching:
  assumes "heldAt objId [pastInstance] [presentInstance] st"
    and "end' pastInstance = Some (start presentInstance)"
  shows "heldAt objId [] [presentInstance\<lparr>start := start pastInstance\<rparr>] (stitchObject objId st)"
  using assms
  by (cases st)
     (auto simp: heldAt_def stitchObject_def update_conv' sameDefinition_setInstances
                 instances_setInstances)

lemma stitchObject_empty_past:
  "heldAt objId [] b st \<Longrightarrow> heldAt objId [] b (stitchObject objId st)"
  by (cases st)
     (auto simp: heldAt_def stitchObject_def update_conv' sameDefinition_setInstances
                 instances_setInstances)

lemma fold_stitchObject_empty_past:
  "heldAt objId [] b st \<Longrightarrow> heldAt objId [] b (fold stitchObject ks st)"
proof (induction ks arbitrary: st)
  case Nil
  then show ?case by simp
next
  case (Cons k ks)
  have "heldAt objId [] b (stitchObject k st)"
    using Cons.prems by (cases "k = objId") (auto intro: stitchObject_other stitchObject_empty_past)
  then show ?case using Cons.IH by simp
qed

lemma fold_stitchObject_touching:
  assumes "heldAt objId [pastInstance] [presentInstance] st"
    and "end' pastInstance = Some (start presentInstance)"
    and "objId \<in> set ks"
  shows "heldAt objId [] [presentInstance\<lparr>start := start pastInstance\<rparr>] (fold stitchObject ks st)"
  using assms
proof (induction ks arbitrary: st)
  case Nil
  then show ?case by simp
next
  case (Cons k ks)
  show ?case
  proof (cases "k = objId")
    case True
    then have "heldAt objId [] [presentInstance\<lparr>start := start pastInstance\<rparr>] (stitchObject k st)"
      using Cons.prems stitchObject_touching by blast
    then show ?thesis by (simp add: fold_stitchObject_empty_past)
  next
    case False
    then have "heldAt objId [pastInstance] [presentInstance] (stitchObject k st)"
      using Cons.prems stitchObject_other by blast
    moreover have "objId \<in> set ks" using False Cons.prems by auto
    ultimately show ?thesis using Cons.IH Cons.prems(2) by simp
  qed
qed

lemma mergeKey_other:
  "k \<noteq> key \<Longrightarrow> map_of (mergeKey f source k object) key = map_of object key"
  by (simp add: mergeKey_def update_conv' split: option.splits)

lemma mergeKey_same:
  "map_of source key = Some b \<Longrightarrow> map_of object key = Some a \<Longrightarrow>
   map_of (mergeKey f source key object) key = Some (f a b)"
  by (simp add: mergeKey_def update_conv')

lemma instances_mergeObject:
  "instances (resolved (mergeObject mv a b)) = mergeInstances (instances (resolved a)) (instances (resolved b))"
  by (simp add: mergeObject_def)

lemma mergeInstances_single:
  "a = [] \<or> a = [x] \<Longrightarrow> mergeInstances a [x] = [x]"
  by (auto simp: mergeInstance_def)

lemma fold_mergeKey_single:
  assumes "map_of source key = Some b" and "instances (resolved b) = [x]"
    and "map_of object key = Some a"
    and "instances (resolved a) = [] \<or> instances (resolved a) = [x]"
    and "instances (resolved a) = [x] \<or> key \<in> set ks"
  shows "\<exists>r. map_of (fold (mergeKey (mergeObject mv) source) ks object) key = Some r \<and>
             instances (resolved r) = [x]"
  using assms(3-5)
proof (induction ks arbitrary: object a)
  case Nil
  then show ?case by simp
next
  case (Cons k ks)
  show ?case
  proof (cases "k = key")
    case True
    have m: "map_of (mergeKey (mergeObject mv) source k object) key = Some (mergeObject mv a b)"
      using True assms(1) Cons.prems(1) by (simp add: mergeKey_same)
    have i: "instances (resolved (mergeObject mv a b)) = [x]"
      using Cons.prems(2) assms(2) by (simp add: instances_mergeObject mergeInstances_single)
    show ?thesis using Cons.IH [OF m] i by simp
  next
    case False
    have m: "map_of (mergeKey (mergeObject mv) source k object) key = Some a"
      using False Cons.prems(1) by (simp add: mergeKey_other)
    show ?thesis using Cons.IH [OF m Cons.prems(2)] Cons.prems(3) False by auto
  qed
qed

text \<open>
  C2. When both schedules hold the object \<open>objId\<close> with the same definition outside the
  \<^verbatim>\<open>resolved\<close> block, \<^verbatim>\<open>past\<close> with the single instance \<^verbatim>\<open>[0, 10)\<close> and \<^verbatim>\<open>present\<close>
  with the single instance \<^verbatim>\<open>[10, 20)\<close>, the schedule returned by
  \<^verbatim>\<open>mergeTimelineObjects(past, present)\<close> holds exactly one instance for the object, with
  start \<^verbatim>\<open>0\<close> and end \<^verbatim>\<open>20\<close>.
\<close>

theorem merge_stitches_touching_instances:
  assumes "map_of (objects past) objId = Some pastObj"
    and "map_of (objects present) objId = Some presentObj"
    and "sameDefinition pastObj presentObj"
    and "instances (resolved pastObj) = [pastInstance]"
    and "start pastInstance = 0" and "end' pastInstance = Some 10"
    and "instances (resolved presentObj) = [presentInstance]"
    and "start presentInstance = 10" and "end' presentInstance = Some 20"
  shows "map_option (\<lambda>merged. map (\<lambda>i. (start i, end' i)) (instances (resolved merged)))
           (map_of (objects (mergeTimelineObjects mergeValue past present)) objId)
         = Some [(0, Some 20)]"
proof -
  let ?x = "presentInstance\<lparr>start := start pastInstance\<rparr>"
  obtain pastObjects presentObjects where
    st: "fold stitchObject (map fst (objects past)) (objects past, objects present)
           = (pastObjects, presentObjects)"
    by (cases "fold stitchObject (map fst (objects past)) (objects past, objects present)")
  have "heldAt objId [pastInstance] [presentInstance] (objects past, objects present)"
    using assms(1-4,7) by (simp add: heldAt_def)
  moreover have "end' pastInstance = Some (start presentInstance)"
    using assms(6,8) by simp
  moreover have "objId \<in> set (map fst (objects past))"
    using assms(1) by (force dest: map_of_SomeD)
  ultimately have "heldAt objId [] [?x] (pastObjects, presentObjects)"
    using fold_stitchObject_touching st by metis
  then obtain a b where
    a: "map_of pastObjects objId = Some a" "instances (resolved a) = []" and
    b: "map_of presentObjects objId = Some b" "instances (resolved b) = [?x]"
    by (auto simp: heldAt_def)
  have "objId \<in> set (map fst presentObjects)"
    using b(1) by (force dest: map_of_SomeD)
  then obtain r where
    r: "map_of (fold (mergeKey (mergeObject mergeValue) presentObjects) (map fst presentObjects)
                  pastObjects) objId = Some r" "instances (resolved r) = [?x]"
    using fold_mergeKey_single [OF b a(1), of "map fst presentObjects" mergeValue] a(2) by auto
  have "map_of (objects (mergeTimelineObjects mergeValue past present)) objId = Some r"
    using r(1) by (simp add: mergeTimelineObjects_def st lodashMerge_def mergeDict_def)
  moreover have "start ?x = 0" "end' ?x = Some 20" using assms(5,9) by simp_all
  ultimately show ?thesis using r(2) by simp
qed

theorem merge_stitches_touching_instances_witness:
  "map_of (objects (exampleTimeline [\<lparr>inst_id = ''@A0'', start = 0, end' = Some 10\<rparr>])) ''A''
     = Some (exampleObject [\<lparr>inst_id = ''@A0'', start = 0, end' = Some 10\<rparr>]) \<and>
   map_of (objects (exampleTimeline [\<lparr>inst_id = ''@A1'', start = 10, end' = Some 20\<rparr>])) ''A''
     = Some (exampleObject [\<lparr>inst_id = ''@A1'', start = 10, end' = Some 20\<rparr>]) \<and>
   sameDefinition (exampleObject [\<lparr>inst_id = ''@A0'', start = 0, end' = Some 10\<rparr>])
     (exampleObject [\<lparr>inst_id = ''@A1'', start = 10, end' = Some 20\<rparr>]) \<and>
   map_option (\<lambda>merged. map (\<lambda>i. (start i, end' i)) (instances (resolved merged)))
     (map_of (objects (mergeTimelineObjects (\<lambda>a b. b)
                         (exampleTimeline [\<lparr>inst_id = ''@A0'', start = 0, end' = Some 10\<rparr>])
                         (exampleTimeline [\<lparr>inst_id = ''@A1'', start = 10, end' = Some 20\<rparr>]))) ''A'')
     = Some [(0, Some 20)]"
  using merge_stitches_touching_instances
          [of "exampleTimeline [\<lparr>inst_id = ''@A0'', start = 0, end' = Some 10\<rparr>]" "''A''"
              "exampleObject [\<lparr>inst_id = ''@A0'', start = 0, end' = Some 10\<rparr>]"
              "exampleTimeline [\<lparr>inst_id = ''@A1'', start = 10, end' = Some 20\<rparr>]"
              "exampleObject [\<lparr>inst_id = ''@A1'', start = 10, end' = Some 20\<rparr>]"
              "\<lparr>inst_id = ''@A0'', start = 0, end' = Some 10\<rparr>"
              "\<lparr>inst_id = ''@A1'', start = 10, end' = Some 20\<rparr>"
              "\<lambda>a b. b"]
  by (simp add: exampleTimeline_def exampleObject_def sameDefinition_def)

section \<open>The visualizer state\<close>

text \<open>The constants at the head of the source file.\<close>

definition DEFAULT_STEP_SIZE :: real where "DEFAULT_STEP_SIZE = 1"
definition DEFAULT_DRAW_RANGE :: real where "DEFAULT_DRAW_RANGE = 500"
definition LABEL_WIDTH_OF_TIMELINE :: real where "LABEL_WIDTH_OF_TIMELINE = 25 / 100"
definition DEFAULT_ZOOM_VALUE :: real where "DEFAULT_ZOOM_VALUE = 100"
definition ZOOM_FACTOR :: real where "ZOOM_FACTOR = 1001 / 1000"
definition PAN_FACTOR :: real where "PAN_FACTOR = 10"
definition MAX_LAYER_HEIGHT :: real where "MAX_LAYER_HEIGHT = 60"
definition DEFAULT_PLAYHEAD_SPEED :: real where "DEFAULT_PLAYHEAD_SPEED = 1"
definition TIMELINE_OBJECT_HEIGHT :: real where "TIMELINE_OBJECT_HEIGHT = 1"
definition MOUSEIN :: nat where "MOUSEIN = 0"
definition MOUSEOUT :: nat where "MOUSEOUT = 1"

lemmas constant_defs =
  DEFAULT_STEP_SIZE_def DEFAULT_DRAW_RANGE_def LABEL_WIDTH_OF_TIMELINE_def
  DEFAULT_ZOOM_VALUE_def ZOOM_FACTOR_def PAN_FACTOR_def MAX_LAYER_HEIGHT_def
  DEFAULT_PLAYHEAD_SPEED_def TIMELINE_OBJECT_HEIGHT_def MOUSEIN_def MOUSEOUT_def

text \<open>
  \<^verbatim>\<open>DrawState\<close>. The field \<^verbatim>\<open>top\<close> is \<^term>\<open>None\<close> when the source computes it from a
  layer that has no row (\<^verbatim>\<open>undefined * rowHeight\<close>, which is \<^verbatim>\<open>NaN\<close>).
\<close>

record DrawState =
  width :: real
  height :: real
  left :: real
  top_px :: "real option"
  visible :: bool

record HoverMapData =
  startX :: real
  endX :: real
  name :: string

text \<open>The argument of \<^verbatim>\<open>setViewPort\<close>: a field that is \<^verbatim>\<open>undefined\<close> is \<^term>\<open>None\<close>.\<close>

record ViewPort =
  vp_timestamp :: "real option"
  vp_zoom :: "real option"
  vp_playPlayhead :: "bool option"
  vp_playheadTime :: "real option"
  vp_playViewPort :: "bool option"
  vp_playSpeed :: "real option"

record TimelineVisualizerOptions =
  opt_drawPlayhead :: "bool option"

text \<open>The \<^verbatim>\<open>time\<close> field of \<^verbatim>\<open>ResolveOptions\<close>, the only one the visualizer reads.\<close>

record ResolveOptions =
  time :: "real option"

record 'v HoveredObject =
  h_object :: "'v ResolvedTimelineObject"
  h_instance :: "Instance option"
  pointer :: "real \<times> real"

record TimelineObjectMetaData =
  meta_type :: string
  meta_name :: string
  meta_instance :: string

text \<open>
  The payload of a \<^verbatim>\<open>timeline:hover\<close> event: \<^verbatim>\<open>detail\<close> is the hovered object, or
  \<^verbatim>\<open>undefined\<close> when the pointer has left.
\<close>

datatype 'v HoverEvent = Hover "'v HoveredObject" | HoverCleared

datatype error = Error string | TypeError

text \<open>
  The fields of the class \<^verbatim>\<open>TimelineVisualizer\<close>, without the leading underscore and
  without the handles of the canvas. \<^verbatim>\<open>_lastScrollDirection\<close> and
  \<^verbatim>\<open>_resolvedTimeline\<close> are tested against \<^verbatim>\<open>undefined\<close> and are options;
  \<^verbatim>\<open>_playViewPort\<close> is only tested for truth, so \<^verbatim>\<open>undefined\<close> is \<^term>\<open>False\<close>.
\<close>

record 'v TimelineVisualizer =
  stepSize :: real
  resolvedTimeline :: "'v ResolvedTimeline option"
  layerLabels :: "(string \<times> nat) list"
  timelineState :: "(string \<times> DrawState) list"
  hoveredObjectMap :: "(string \<times> HoverMapData list) list"
  layerLabelWidth :: real
  canvasWidth :: real
  canvasHeight :: real
  rowHeight :: real
  rowsTotalHeight :: real
  numberOfLayers :: nat
  timelineWidth :: real
  timelineStart :: real
  timelineObjectHeight :: real
  drawTimeStart :: real
  drawTimeEnd :: real
  drawTimeRange :: real
  scaledDrawTimeRange :: real
  pixelsWidthPerUnitTime :: real
  mouseDown :: bool
  mouseLastX :: real
  lastScrollDirection :: "int option"
  timelineZoom :: real
  playHeadPlaying :: bool
  playViewPort :: bool
  drawPlayhead :: bool
  playSpeed :: real
  playHeadTime :: real
  playHeadPosition :: real
  updateDrawLastTime :: real
  hoveredOver :: "'v HoveredObject option"
  lastHoverAction :: nat
  lastHoveredName :: string

text \<open>
  An operation returns the error it raised, if any, and the state it leaves: what a
  method has assigned before it throws stays assigned.
\<close>

type_synonym 'v outcome = "error option \<times> 'v TimelineVisualizer"

section \<open>Coordinate mapping\<close>

definition updateScaledDrawTimeRange :: "'v TimelineVisualizer \<Rightarrow> 'v TimelineVisualizer" where
  "updateScaledDrawTimeRange s =
     s\<lparr>scaledDrawTimeRange := drawTimeRange s * (timelineZoom s / 100),
       pixelsWidthPerUnitTime := timelineWidth s / (drawTimeEnd s - drawTimeStart s)\<rparr>"

definition timeToXCoord :: "'v TimelineVisualizer \<Rightarrow> real \<Rightarrow> real" where
  "timeToXCoord s t =
     (if t < drawTimeStart s then - 1
      else if t > drawTimeEnd s then timelineWidth s + timelineStart s
      else ((t - drawTimeStart s) / (drawTimeEnd s - drawTimeStart s) * timelineWidth s)
             + timelineStart s)"

definition getCursorPositionAcrossTimeline :: "'v TimelineVisualizer \<Rightarrow> real \<Rightarrow> real" where
  "getCursorPositionAcrossTimeline s cursorX =
     (if cursorX \<le> timelineStart s \<or> cursorX \<ge> timelineStart s + timelineWidth s then - 1
      else (cursorX - timelineStart s) / timelineWidth s)"

definition cursorPosToTime :: "'v TimelineVisualizer \<Rightarrow> real \<Rightarrow> real" where
  "cursorPosToTime s cursorX =
     (if cursorX \<le> timelineStart s \<or> cursorX \<ge> timelineStart s + timelineWidth s then - 1
      else drawTimeStart s + (scaledDrawTimeRange s * getCursorPositionAcrossTimeline s cursorX))"

text \<open>\<^verbatim>\<open>computePlayheadPosition\<close>: whether the playhead has moved, and the state.\<close>

definition computePlayheadPosition :: "'v TimelineVisualizer \<Rightarrow> bool \<times> 'v TimelineVisualizer" where
  "computePlayheadPosition s =
     (let pos = timeToXCoord s (playHeadTime s);
          pos = (if pos < timelineStart s then timelineStart s else pos)
      in if pos \<noteq> playHeadPosition s then (True, s\<lparr>playHeadPosition := pos\<rparr>) else (False, s))"

section \<open>Redrawing\<close>

text \<open>
  A number used as a property key: its decimal representation.
\<close>

fun decimal :: "nat \<Rightarrow> string" where
  "decimal n =
     (if n < 10 then [''0123456789'' ! n]
      else decimal (n div 10) @ [''0123456789'' ! (n mod 10)])"

definition decimal_int :: "int \<Rightarrow> string" where
  "decimal_int i = (if i < 0 then CHR ''-'' # decimal (nat (- i)) else decimal (nat i))"

text \<open>
  The calls that draw on the canvas read the state and write none of its fields; they are
  left out. \<^verbatim>\<open>drawLayerLabels\<close> runs
  \<^verbatim>\<open>for (let layer in Object.keys(this._layerLabels))\<close>, so \<^verbatim>\<open>layer\<close> ranges over the
  indices \<^verbatim>\<open>"0"\<close>, \<^verbatim>\<open>"1"\<close>, ... of the array of keys, and it calls
  \<^verbatim>\<open>this._layerLabels[layer].toString()\<close>, which throws a \<^verbatim>\<open>TypeError\<close> when no layer
  has that index as its name.
\<close>

definition drawLayerLabels :: "'v TimelineVisualizer \<Rightarrow> error option" where
  "drawLayerLabels s =
     (if list_all (\<lambda>i. map_of (layerLabels s) (decimal i) \<noteq> None) [0 ..< length (layerLabels s)]
      then None else Some TypeError)"

definition redrawTimeline :: "'v TimelineVisualizer \<Rightarrow> 'v outcome" where
  "redrawTimeline s =
     (case drawLayerLabels s of
        Some e \<Rightarrow> (Some e, s)
      | None \<Rightarrow> (None, snd (computePlayheadPosition s)))"

section \<open>Deriving the draw state\<close>

definition getObjectOffsetFromTimelineStart :: "'v TimelineVisualizer \<Rightarrow> real \<Rightarrow> real" where
  "getObjectOffsetFromTimelineStart s startTime =
     (let offset = (startTime - drawTimeStart s) * pixelsWidthPerUnitTime s
      in if offset < 0 then 0 else offset)"

text \<open>\<^verbatim>\<open>if (!endTime) return this._canvasWidth\<close>: an end of \<^verbatim>\<open>null\<close> or of \<^verbatim>\<open>0\<close>.\<close>

definition getObjectWidth :: "'v TimelineVisualizer \<Rightarrow> real \<Rightarrow> real option \<Rightarrow> real" where
  "getObjectWidth s startTime endTime =
     (if \<not> truthy endTime then canvasWidth s
      else
        (let startTime = (if startTime < drawTimeStart s then drawTimeStart s else startTime);
             duration = the endTime - startTime
         in duration * pixelsWidthPerUnitTime s))"

definition showOnTimeline :: "'v TimelineVisualizer \<Rightarrow> real \<Rightarrow> real option \<Rightarrow> bool" where
  "showOnTimeline s startTime endTime =
     (let isAfter = (startTime \<ge> drawTimeEnd s);
          isBefore = inf_le (orInfinity endTime) (drawTimeStart s)
      in \<not> isAfter \<and> \<not> isBefore)"

definition getObjectOffsetFromTop :: "'v TimelineVisualizer \<Rightarrow> string \<Rightarrow> real option" where
  "getObjectOffsetFromTop s layerName =
     map_option (\<lambda>top. real top * rowHeight s) (map_of (layerLabels s) layerName)"

definition createStateForObject ::
  "'v TimelineVisualizer \<Rightarrow> string \<Rightarrow> real \<Rightarrow> real option \<Rightarrow> DrawState" where
  "createStateForObject s layerName startTime endTime =
     (if showOnTimeline s startTime endTime then
        (let objectWidth = getObjectWidth s startTime endTime;
             offset = getObjectOffsetFromTimelineStart s startTime;
             objectTop = getObjectOffsetFromTop s layerName
         in \<lparr>width = objectWidth,
             height = timelineObjectHeight s,
             left = timelineStart s + offset,
             top_px = objectTop,
             visible = True\<rparr>)
      else \<lparr>width = 0, height = 0, left = 0, top_px = Some 0, visible = False\<rparr>)"

text \<open>
  The body of the inner loop of \<^verbatim>\<open>getTimelineDrawState\<close>, on the triple of the error
  raised so far, \<^verbatim>\<open>currentDrawState\<close> and \<^verbatim>\<open>this._hoveredObjectMap\<close>. The \<^verbatim>\<open>push\<close>
  throws a \<^verbatim>\<open>TypeError\<close> when the map has no bucket for the layer of the object.
\<close>

definition instanceName :: "'v ResolvedTimelineObject \<Rightarrow> Instance \<Rightarrow> string" where
  "instanceName timeObj instanceObj =
     ''timelineObject:'' @ obj_id timeObj @ '':'' @ inst_id instanceObj"

definition drawInstance ::
  "'v TimelineVisualizer \<Rightarrow> 'v ResolvedTimelineObject \<Rightarrow> Instance \<Rightarrow>
   error option \<times> (string \<times> DrawState) list \<times> (string \<times> HoverMapData list) list \<Rightarrow>
   error option \<times> (string \<times> DrawState) list \<times> (string \<times> HoverMapData list) list" where
  "drawInstance s timeObj instanceObj acc =
     (case acc of (err, currentDrawState, hoverMap) \<Rightarrow>
        if err \<noteq> None then acc
        else
          (let nm = instanceName timeObj instanceObj;
               st = createStateForObject s (layer timeObj) (start instanceObj) (end' instanceObj);
               currentDrawState = AList.update nm st currentDrawState
           in if visible st then
                (case map_of hoverMap (layer timeObj) of
                   None \<Rightarrow> (Some TypeError, currentDrawState, hoverMap)
                 | Some bucket \<Rightarrow>
                     (None, currentDrawState,
                      AList.update (layer timeObj)
                        (bucket @ [\<lparr>startX = left st, endX = left st + width st, name = nm\<rparr>])
                        hoverMap))
              else (None, currentDrawState, hoverMap)))"

text \<open>
  \<^verbatim>\<open>getTimelineDrawState\<close>: the error raised, the draw state built and the state of the
  visualizer, whose hover map has grown.
\<close>

definition getTimelineDrawState ::
  "'v TimelineVisualizer \<Rightarrow> 'v ResolvedTimeline \<Rightarrow>
   error option \<times> (string \<times> DrawState) list \<times> 'v TimelineVisualizer" where
  "getTimelineDrawState s timeline =
     (case fold (\<lambda>entry. fold (drawInstance s (snd entry)) (instances (resolved (snd entry))))
             (objects timeline) (None, [], hoveredObjectMap s) of
        (err, currentDrawState, hoverMap) \<Rightarrow>
          (err, currentDrawState, s\<lparr>hoveredObjectMap := hoverMap\<rparr>))"

text \<open>
  \<^verbatim>\<open>this._timelineState = this.getTimelineDrawState(this._resolvedTimeline)\<close>, as the
  event handlers call it: reading \<^verbatim>\<open>timeline.objects\<close> throws when no timeline has been
  resolved yet, and the assignment is not reached when the call throws.
\<close>

definition refreshTimelineState :: "'v TimelineVisualizer \<Rightarrow> 'v outcome" where
  "refreshTimelineState s =
     (case resolvedTimeline s of
        None \<Rightarrow> (Some TypeError, s)
      | Some timeline \<Rightarrow>
          (case getTimelineDrawState s timeline of
             (Some e, currentDrawState, s') \<Rightarrow> (Some e, s')
           | (None, currentDrawState, s') \<Rightarrow> (None, s'\<lparr>timelineState := currentDrawState\<rparr>)))"

section \<open>Layers\<close>

text \<open>
  \<^verbatim>\<open>getLayersToDraw\<close>: the keys of \<^verbatim>\<open>this._resolvedTimeline.layers\<close> in their order,
  each once, then the index of each in that array. The hover map is reset to an empty
  bucket per layer.
\<close>

definition collectLayers :: "string list \<Rightarrow> string list" where
  "collectLayers keys =
     fold (\<lambda>layerName layersArray.
             if layerName \<in> set layersArray then layersArray else layersArray @ [layerName])
          keys []"

definition getLayersToDraw ::
  "'v TimelineVisualizer \<Rightarrow> 'v ResolvedTimeline \<Rightarrow>
   ((string \<times> nat) list \<times> string list) \<times> 'v TimelineVisualizer" where
  "getLayersToDraw s timeline =
     (let layersArray = collectLayers (map fst (layers timeline));
          indexed = zip layersArray [0 ..< length layersArray];
          layerMap = fold (\<lambda>(layerName, index). AList.update layerName index) indexed [];
          hoverMap = fold (\<lambda>(layerName, index). AList.update layerName []) indexed []
      in ((layerMap, layersArray), s\<lparr>hoveredObjectMap := hoverMap\<rparr>))"

text \<open>
  \<^verbatim>\<open>Math.min(MAX_LAYER_HEIGHT, this._canvasHeight / Object.keys(layers).length)\<close>. With
  no layer the quotient of a positive canvas height is \<^verbatim>\<open>Infinity\<close>, and the minimum
  is \<^verbatim>\<open>MAX_LAYER_HEIGHT\<close>. With no layer and a canvas of height \<^verbatim>\<open>0\<close> the code computes
  \<^verbatim>\<open>0 / 0\<close>, which is not a real number: the value given here for that case is not the
  code's, and no statement below is about a canvas of height \<^verbatim>\<open>0\<close>.
\<close>

definition calculateRowHeight :: "'v TimelineVisualizer \<Rightarrow> (string \<times> nat) list \<Rightarrow> real" where
  "calculateRowHeight s layerMap =
     (if length layerMap = 0 then MAX_LAYER_HEIGHT
      else min MAX_LAYER_HEIGHT (canvasHeight s / real (length layerMap)))"

text \<open>
  \<^verbatim>\<open>updateLayerLabels\<close>. \<^verbatim>\<open>isEqual\<close> compares the two dictionaries whatever the order
  of their keys.
\<close>

definition updateLayerLabels :: "'v TimelineVisualizer \<Rightarrow> 'v ResolvedTimeline \<Rightarrow> 'v TimelineVisualizer" where
  "updateLayerLabels s timeline =
     (case getLayersToDraw s timeline of
        ((layerMap, layersArray), s) \<Rightarrow>
          if set (layerLabels s) \<noteq> set layerMap then
            (let s = s\<lparr>layerLabels := layerMap\<rparr>;
                 s = s\<lparr>rowHeight := calculateRowHeight s (layerLabels s)\<rparr>;
                 s = s\<lparr>timelineObjectHeight := rowHeight s * TIMELINE_OBJECT_HEIGHT\<rparr>;
                 s = s\<lparr>numberOfLayers := length (layerLabels s)\<rparr>
             in s\<lparr>rowsTotalHeight := rowHeight s * real (numberOfLayers s)\<rparr>)
          else s)"

section \<open>The viewport controller\<close>

text \<open>
  \<^verbatim>\<open>setViewPort\<close>, in the order of the source. First the fields of the view: the pair
  is the local \<^verbatim>\<open>changed\<close> and the state. With a zoom the source assigns
  \<^verbatim>\<open>this._drawTimeEnd = this._timelineStart + this._scaledDrawTimeRange\<close>.
\<close>

definition setViewPortZoom :: "ViewPort \<Rightarrow> 'v TimelineVisualizer \<Rightarrow> bool \<times> 'v TimelineVisualizer" where
  "setViewPortZoom viewPort s =
     (case vp_zoom viewPort of
        None \<Rightarrow> (False, s)
      | Some z \<Rightarrow>
          (let s = updateScaledDrawTimeRange (s\<lparr>timelineZoom := z\<rparr>)
           in (True, s\<lparr>drawTimeEnd := timelineStart s + scaledDrawTimeRange s\<rparr>)))"

definition setViewPortTimestamp ::
  "ViewPort \<Rightarrow> bool \<times> 'v TimelineVisualizer \<Rightarrow> bool \<times> 'v TimelineVisualizer" where
  "setViewPortTimestamp viewPort st =
     (case st of (changed, s) \<Rightarrow>
        (case vp_timestamp viewPort of
           None \<Rightarrow> (changed, s)
         | Some t \<Rightarrow>
             if t > 0 then
               (let s = s\<lparr>drawTimeStart := t\<rparr>
                in (True, s\<lparr>drawTimeEnd := drawTimeStart s + scaledDrawTimeRange s\<rparr>))
             else (changed, s)))"

definition setViewPortPlayViewPort ::
  "ViewPort \<Rightarrow> bool \<times> 'v TimelineVisualizer \<Rightarrow> bool \<times> 'v TimelineVisualizer" where
  "setViewPortPlayViewPort viewPort st =
     (case st of (changed, s) \<Rightarrow>
        (case vp_playViewPort viewPort of
           None \<Rightarrow> (changed, s)
         | Some b \<Rightarrow> (changed, s\<lparr>playViewPort := b\<rparr>)))"

definition setViewPortView :: "ViewPort \<Rightarrow> 'v TimelineVisualizer \<Rightarrow> bool \<times> 'v TimelineVisualizer" where
  "setViewPortView viewPort s =
     setViewPortPlayViewPort viewPort (setViewPortTimestamp viewPort (setViewPortZoom viewPort s))"

text \<open>
  Then the three fields of the playhead, each behind its guard on
  \<^verbatim>\<open>this._drawPlayhead\<close>, and the redraw when \<^verbatim>\<open>changed\<close> is set.
\<close>

definition setViewPort :: "ViewPort \<Rightarrow> 'v TimelineVisualizer \<Rightarrow> 'v outcome" where
  "setViewPort viewPort s0 =
     (case setViewPortView viewPort s0 of (changed, s) \<Rightarrow>
        if vp_playSpeed viewPort \<noteq> None \<and> \<not> drawPlayhead s then
          (Some (Error ''setViewPort: viewPort.playSpeed was set, but drawPlayhead was not set in constructor''), s)
        else
          (let s = (case vp_playSpeed viewPort of None \<Rightarrow> s | Some v \<Rightarrow> s\<lparr>playSpeed := v\<rparr>)
           in if vp_playPlayhead viewPort \<noteq> None \<and> \<not> drawPlayhead s then
                (Some (Error ''setViewPort: viewPort.playPlayhead was set, but drawPlayhead was not set in constructor''), s)
              else
                (let s = (case vp_playPlayhead viewPort of
                            None \<Rightarrow> s | Some b \<Rightarrow> s\<lparr>playHeadPlaying := b\<rparr>)
                 in if vp_playheadTime viewPort \<noteq> None \<and> \<not> drawPlayhead s then
                      (Some (Error ''setViewPort: viewPort.playheadTime was set, but drawPlayhead was not set in constructor''), s)
                    else
                      (let st = (case vp_playheadTime viewPort of
                                   None \<Rightarrow> (changed, s)
                                 | Some p \<Rightarrow> (True, s\<lparr>playHeadTime := max 0 p\<rparr>))
                       in if fst st then redrawTimeline (snd (computePlayheadPosition (snd st)))
                          else (None, snd st)))))"

text \<open>\<^verbatim>\<open>canvasScrollByDeltaX\<close>: the pan by a number of pixels.\<close>

definition canvasScrollByDeltaX :: "real \<Rightarrow> 'v TimelineVisualizer \<Rightarrow> 'v TimelineVisualizer" where
  "canvasScrollByDeltaX deltaX s =
     (let targetStart = drawTimeStart s + (deltaX / pixelsWidthPerUnitTime s);
          targetStart = (if targetStart < 0 then 0 else targetStart)
      in if targetStart = drawTimeStart s then s
         else
           (let targetEnd = targetStart + scaledDrawTimeRange s
            in s\<lparr>drawTimeStart := targetStart, drawTimeEnd := targetEnd\<rparr>))"

definition zoomUnderCursor :: "real \<Rightarrow> 'v TimelineVisualizer \<Rightarrow> 'v TimelineVisualizer" where
  "zoomUnderCursor cursorX s0 =
     (let coordToTime = cursorPosToTime s0 cursorX;
          ratio = getCursorPositionAcrossTimeline s0 cursorX;
          s = updateScaledDrawTimeRange s0;
          targetStart = coordToTime - (ratio * scaledDrawTimeRange s);
          targetEnd = targetStart + scaledDrawTimeRange s
      in if targetStart < 0 then
           s\<lparr>drawTimeStart := 0, drawTimeEnd := targetEnd + (- targetStart)\<rparr>
         else s\<lparr>drawTimeStart := targetStart, drawTimeEnd := targetEnd\<rparr>)"

text \<open>
  The events of the pointer and of the wheel, and \<^verbatim>\<open>getMousePos\<close>; \<open>rect\<close> is the left
  and the top of \<^verbatim>\<open>canvas.getBoundingClientRect()\<close>.
\<close>

record MouseEvent =
  clientX :: real
  clientY :: real

record WheelEvent = MouseEvent +
  ctrlKey :: bool
  altKey :: bool
  deltaX :: real
  deltaY :: real

definition getMousePos :: "real \<times> real \<Rightarrow> 'e MouseEvent_scheme \<Rightarrow> real \<times> real" where
  "getMousePos rect evt = (clientX evt - fst rect, clientY evt - snd rect)"

text \<open>
  \<^verbatim>\<open>canvasScrollWheel\<close>: the new state of the view, and whether it changed; then the
  draw state and the redraw.
\<close>

definition scrollWheelView ::
  "real \<Rightarrow> WheelEvent \<Rightarrow> 'v TimelineVisualizer \<Rightarrow> bool \<times> 'v TimelineVisualizer" where
  "scrollWheelView x event s =
     (if ctrlKey event then
        (if deltaY event > 0 then
           (True, zoomUnderCursor x
                    (s\<lparr>timelineZoom := timelineZoom s * (ZOOM_FACTOR powr \<bar>deltaY event\<bar>)\<rparr>))
         else if deltaY event < 0 then
           (True, zoomUnderCursor x
                    (s\<lparr>timelineZoom := timelineZoom s / (ZOOM_FACTOR powr \<bar>deltaY event\<bar>)\<rparr>))
         else (False, s))
      else if deltaX event \<noteq> 0 then
        (True, canvasScrollByDeltaX (deltaX event * (PAN_FACTOR * stepSize s)) s)
      else if deltaY event \<noteq> 0 \<and> altKey event then
        (True, canvasScrollByDeltaX (deltaY event * (PAN_FACTOR * stepSize s)) s)
      else (False, s))"

definition canvasScrollWheel :: "real \<times> real \<Rightarrow> WheelEvent \<Rightarrow> 'v TimelineVisualizer \<Rightarrow> 'v outcome" where
  "canvasScrollWheel rect event s =
     (let canvasCoord = getMousePos rect event
      in if fst canvasCoord \<le> timelineStart s then (None, s)
         else
           (case scrollWheelView (fst canvasCoord) event s of
              (changed, s) \<Rightarrow>
                if changed then
                  (case refreshTimelineState s of
                     (Some e, s) \<Rightarrow> (Some e, s)
                   | (None, s) \<Rightarrow> redrawTimeline s)
                else (None, s)))"

section \<open>The update loop\<close>

text \<open>
  One run of \<^verbatim>\<open>updateDraw\<close>; \<open>now\<close> is \<^verbatim>\<open>Date.now()\<close>. The request for the next
  animation frame is the next call, with the clock of that frame.
\<close>

definition updateDraw :: "real \<Rightarrow> 'v TimelineVisualizer \<Rightarrow> 'v outcome" where
  "updateDraw now s0 =
     (let dt = (if updateDrawLastTime s0 > 0 then now - updateDrawLastTime s0 else 1) / 1000;
          s = s0\<lparr>updateDrawLastTime := now\<rparr>;
          updatePlayhead = (playHeadPlaying s \<and> drawPlayhead s);
          s = (if updatePlayhead then s\<lparr>playHeadTime := playHeadTime s + playSpeed s * dt\<rparr> else s);
          play = (\<not> (playHeadPlaying s \<and> drawPlayhead s \<and>
                       (playHeadTime s > drawTimeEnd s \<or> playHeadTime s < drawTimeStart s)));
          updateEverything = (playViewPort s \<and> play);
          s = (if updateEverything then
                 s\<lparr>drawTimeStart := drawTimeStart s + playSpeed s * dt,
                   drawTimeEnd := drawTimeEnd s + playSpeed s * dt\<rparr>
               else s)
      in if updateEverything then redrawTimeline s
         else if updatePlayhead then
           (case computePlayheadPosition s of
              (moved, s) \<Rightarrow> if moved then redrawTimeline s else (None, s))
         else (None, s))"

section \<open>Construction and new timelines\<close>

text \<open>
  The constructor. \<open>canvas\<close> is what \<^verbatim>\<open>document.getElementById\<close> finds: nothing, or a
  canvas with its width and height. The fields the constructor and the initialisers do
  not assign are left unspecified. In the code arithmetic on such a field gives
  \<^verbatim>\<open>NaN\<close>, which is not a real number, so a pan or a zoom before the first
  \<^verbatim>\<open>updateTimeline\<close> is not covered by the statements below: they are about states in
  which \<^verbatim>\<open>updateTimeline\<close> has assigned the window, as in the example. The constructor
  ends with the first run of \<^verbatim>\<open>updateDraw\<close>.
\<close>

definition initialFields :: "real \<times> real \<Rightarrow> TimelineVisualizerOptions \<Rightarrow> 'v TimelineVisualizer" where
  "initialFields canvas opts =
     \<lparr>stepSize = DEFAULT_STEP_SIZE,
      resolvedTimeline = None,
      layerLabels = [],
      timelineState = [],
      hoveredObjectMap = [],
      layerLabelWidth = fst canvas * LABEL_WIDTH_OF_TIMELINE,
      canvasWidth = fst canvas,
      canvasHeight = snd canvas,
      rowHeight = undefined,
      rowsTotalHeight = undefined,
      numberOfLayers = undefined,
      timelineWidth = fst canvas - fst canvas * LABEL_WIDTH_OF_TIMELINE,
      timelineStart = fst canvas * LABEL_WIDTH_OF_TIMELINE,
      timelineObjectHeight = undefined,
      drawTimeStart = 0,
      drawTimeEnd = undefined,
      drawTimeRange = undefined,
      scaledDrawTimeRange = undefined,
      pixelsWidthPerUnitTime = undefined,
      mouseDown = False,
      mouseLastX = undefined,
      lastScrollDirection = None,
      timelineZoom = DEFAULT_ZOOM_VALUE,
      playHeadPlaying = False,
      playViewPort = False,
      drawPlayhead = (opt_drawPlayhead opts = Some True),
      playSpeed = DEFAULT_PLAYHEAD_SPEED,
      playHeadTime = 0,
      playHeadPosition = fst canvas * LABEL_WIDTH_OF_TIMELINE,
      updateDrawLastTime = 0,
      hoveredOver = None,
      lastHoverAction = MOUSEOUT,
      lastHoveredName = []\<rparr>"

definition construct ::
  "string \<Rightarrow> (real \<times> real) option \<Rightarrow> TimelineVisualizerOptions \<Rightarrow> real \<Rightarrow>
   error + 'v TimelineVisualizer" where
  "construct canvasId canvas opts now =
     (case canvas of
        None \<Rightarrow> Inl (Error (''Canvas '' @ [CHR 0x22] @ canvasId @ [CHR 0x22] @ '' not found''))
      | Some c \<Rightarrow>
          (case updateDraw now (initialFields c opts) of
             (Some e, s) \<Rightarrow> Inl e
           | (None, s) \<Rightarrow> Inr s))"

text \<open>\<^verbatim>\<open>private readonly _defaultDrawRange = DEFAULT_DRAW_RANGE * this.stepSize\<close>\<close>

definition defaultDrawRange :: real where
  "defaultDrawRange = DEFAULT_DRAW_RANGE * DEFAULT_STEP_SIZE"

text \<open>
  \<^verbatim>\<open>updateTimeline\<close>. \<open>resolve\<close> is \<^verbatim>\<open>Resolver.resolveTimeline\<close> of the library applied
  to the given timeline, as a function of the options; \<open>mergeValue\<close> is the parameter of
  \<^const>\<open>lodashMerge\<close>. First the part that assigns \<^verbatim>\<open>this._resolvedTimeline\<close>; the
  test \<^verbatim>\<open>if (newTimeline)\<close> is on an object and holds.
\<close>

definition resolveInto ::
  "(ResolveOptions \<Rightarrow> 'v ResolvedTimeline) \<Rightarrow> ('v \<Rightarrow> 'v \<Rightarrow> 'v) \<Rightarrow> ResolveOptions option \<Rightarrow>
   'v TimelineVisualizer \<Rightarrow> 'v ResolvedTimeline \<times> 'v TimelineVisualizer" where
  "resolveInto resolve mergeValue opts s =
     (let opts = (case opts of None \<Rightarrow> \<lparr>time = Some 0\<rparr> | Some given \<Rightarrow> given)
      in case resolvedTimeline s of
           None \<Rightarrow>
             (let timeline = resolve opts;
                  s = s\<lparr>resolvedTimeline := Some timeline, drawTimeRange := defaultDrawRange\<rparr>;
                  s = (case time opts of None \<Rightarrow> s | Some t \<Rightarrow> s\<lparr>drawTimeStart := t\<rparr>);
                  s = s\<lparr>drawTimeEnd := drawTimeStart s + defaultDrawRange\<rparr>
              in (timeline, s\<lparr>playHeadTime := drawTimeStart s\<rparr>))
         | Some current \<Rightarrow>
             (let opts = (if drawPlayhead s then opts\<lparr>time := Some (playHeadTime s)\<rparr> else opts);
                  newTimeline = resolve opts;
                  timeline =
                    (if drawPlayhead s then
                       mergeTimelineObjects mergeValue
                         (trimTimeline current \<lparr>trim_start = None, trim_end = Some (playHeadTime s)\<rparr>)
                         newTimeline
                     else newTimeline)
              in (timeline, s\<lparr>resolvedTimeline := Some timeline\<rparr>)))"

definition updateTimeline ::
  "(ResolveOptions \<Rightarrow> 'v ResolvedTimeline) \<Rightarrow> ('v \<Rightarrow> 'v \<Rightarrow> 'v) \<Rightarrow> ResolveOptions option \<Rightarrow>
   'v TimelineVisualizer \<Rightarrow> 'v outcome" where
  "updateTimeline resolve mergeValue opts s =
     (case resolveInto resolve mergeValue opts s of
        (timeline, s) \<Rightarrow>
          (let s = updateLayerLabels s timeline;
               s = updateScaledDrawTimeRange s
           in case getTimelineDrawState s timeline of
                (Some e, currentDrawState, s) \<Rightarrow> (Some e, s)
              | (None, currentDrawState, s) \<Rightarrow>
                  redrawTimeline (s\<lparr>timelineState := currentDrawState\<rparr>)))"

section \<open>Pointer events\<close>

definition canvasMouseDown :: "MouseEvent \<Rightarrow> 'v TimelineVisualizer \<Rightarrow> 'v TimelineVisualizer" where
  "canvasMouseDown event s = s\<lparr>mouseDown := True, mouseLastX := clientX event\<rparr>"

definition canvasMouseUp :: "MouseEvent \<Rightarrow> 'v TimelineVisualizer \<Rightarrow> 'v TimelineVisualizer" where
  "canvasMouseUp event s = s\<lparr>mouseDown := False, lastScrollDirection := Some 0\<rparr>"

text \<open>\<^verbatim>\<open>meta.split(':')\<close> and \<^verbatim>\<open>timelineMetaFromString\<close>.\<close>

fun splitColon :: "string \<Rightarrow> string list" where
  "splitColon [] = [[]]"
| "splitColon (c # cs) =
     (if c = CHR '':'' then [] # splitColon cs
      else (case splitColon cs of [] \<Rightarrow> [[c]] | w # ws \<Rightarrow> (c # w) # ws))"

definition timelineMetaFromString :: "string \<Rightarrow> TimelineObjectMetaData option" where
  "timelineMetaFromString meta =
     (case splitColon meta of
        [t, n, i] \<Rightarrow> Some \<lparr>meta_type = t, meta_name = n, meta_instance = i\<rparr>
      | _ \<Rightarrow> None)"

text \<open>
  The branch of \<^verbatim>\<open>canvasMouseMove\<close> with the button held: the drag, up to the call of
  \<^verbatim>\<open>canvasScrollByDeltaX\<close>.
\<close>

definition dragView :: "MouseEvent \<Rightarrow> 'v TimelineVisualizer \<Rightarrow> 'v TimelineVisualizer" where
  "dragView event s =
     (if lastScrollDirection s = None \<or> lastScrollDirection s = Some 0 then
        (let s = s\<lparr>mouseLastX := clientX event\<rparr>;
             deltaX = clientX event - mouseLastX s;
             s = s\<lparr>lastScrollDirection := Some (if deltaX < 0 then - 1 else 1)\<rparr>
         in canvasScrollByDeltaX (- deltaX) s)
      else
        (let direction = mouseLastX s - clientX event
         in if direction < 0 \<and> lastScrollDirection s = Some 1 then
              s\<lparr>mouseLastX := clientX event, lastScrollDirection := Some (- 1)\<rparr>
            else if direction > 0 \<and> lastScrollDirection s = Some (- 1) then
              s\<lparr>mouseLastX := clientX event, lastScrollDirection := Some 1\<rparr>
            else
              (let deltaX = clientX event - mouseLastX s;
                   s = s\<lparr>mouseLastX := clientX event\<rparr>
               in canvasScrollByDeltaX (- deltaX) s)))"

text \<open>
  The branch without the button: the hover. The callback of \<^verbatim>\<open>hoverMapData.forEach\<close>
  works on the error raised so far, the local \<^verbatim>\<open>found\<close>, the events emitted so far and
  the state. Reading \<^verbatim>\<open>timelineObject.resolved\<close> throws when the timeline has no object
  of the name in the meta data.
\<close>

definition hoverObject ::
  "real \<times> real \<Rightarrow> HoverMapData \<Rightarrow>
   error option \<times> bool \<times> 'v HoverEvent list \<times> 'v TimelineVisualizer \<Rightarrow>
   error option \<times> bool \<times> 'v HoverEvent list \<times> 'v TimelineVisualizer" where
  "hoverObject mousePos obj acc =
     (case acc of (err, found, events, s) \<Rightarrow>
        if err \<noteq> None then acc
        else if startX obj \<le> fst mousePos \<and> endX obj \<ge> fst mousePos then
          (if lastHoveredName s \<noteq> name obj then
             (case timelineMetaFromString (name obj) of
                None \<Rightarrow> (None, True, events, s)
              | Some meta \<Rightarrow>
                  if meta_type meta = ''timelineObject'' then
                    (case resolvedTimeline s of
                       None \<Rightarrow> (Some TypeError, True, events, s)
                     | Some timeline \<Rightarrow>
                         (case map_of (objects timeline) (meta_name meta) of
                            None \<Rightarrow> (Some TypeError, True, events, s)
                          | Some timelineObject \<Rightarrow>
                              (let hoverInfo =
                                     \<lparr>h_object = timelineObject,
                                      h_instance = find (\<lambda>i. inst_id i = meta_instance meta)
                                                     (instances (resolved timelineObject)),
                                      pointer = mousePos\<rparr>
                               in (None, True, events @ [Hover hoverInfo],
                                   s\<lparr>hoveredOver := Some hoverInfo,
                                     lastHoverAction := MOUSEIN,
                                     lastHoveredName := name obj\<rparr>))))
                  else (None, True, events, s))
           else (None, True, events, s))
        else acc)"

text \<open>
  \<^verbatim>\<open>this._hoveredObjectMap[this._layerLabels[selectedRow]]\<close>: the row number is used as
  a key of the layer labels, and what is found there (an index, or \<^verbatim>\<open>undefined\<close>) as a
  key of the hover map. With a total height of \<^verbatim>\<open>0\<close> the quotient of a negative \<^verbatim>\<open>y\<close> is
  \<^verbatim>\<open>-Infinity\<close>, and its product with \<^verbatim>\<open>0\<close> layers is \<^verbatim>\<open>NaN\<close>.
\<close>

definition selectedRowKey :: "'v TimelineVisualizer \<Rightarrow> real \<Rightarrow> string" where
  "selectedRowKey s y =
     (if rowsTotalHeight s = 0 then
        (if numberOfLayers s = 0 then ''NaN'' else ''-Infinity'')
      else decimal_int \<lfloor>(y / rowsTotalHeight s) * real (numberOfLayers s)\<rfloor>)"

definition hoverBucket :: "'v TimelineVisualizer \<Rightarrow> real \<Rightarrow> HoverMapData list option" where
  "hoverBucket s y =
     map_of (hoveredObjectMap s)
       (case map_of (layerLabels s) (selectedRowKey s y) of
          None \<Rightarrow> ''undefined''
        | Some index \<Rightarrow> decimal index)"

definition hoverMove ::
  "real \<times> real \<Rightarrow> 'v TimelineVisualizer \<Rightarrow> error option \<times> 'v HoverEvent list \<times> 'v TimelineVisualizer" where
  "hoverMove mousePos s0 =
     (case (if fst mousePos > timelineStart s0 \<and> snd mousePos < rowsTotalHeight s0 then
              (case hoverBucket s0 (snd mousePos) of
                 None \<Rightarrow> (Some TypeError, False, [], s0)
               | Some hoverMapData \<Rightarrow> fold (hoverObject mousePos) hoverMapData (None, False, [], s0))
            else (None, False, [], s0)) of
        (err, found, events, s) \<Rightarrow>
          if err \<noteq> None then (err, events, s)
          else if \<not> found \<and> lastHoverAction s = MOUSEIN then
            (None, events @ [HoverCleared], s\<lparr>lastHoverAction := MOUSEOUT\<rparr>)
          else (None, events, s))"

text \<open>
  \<^verbatim>\<open>canvasMouseMove\<close>: the error raised, the \<^verbatim>\<open>timeline:hover\<close> events emitted, in
  order, and the state.
\<close>

definition canvasMouseMove ::
  "real \<times> real \<Rightarrow> MouseEvent \<Rightarrow> 'v TimelineVisualizer \<Rightarrow>
   error option \<times> 'v HoverEvent list \<times> 'v TimelineVisualizer" where
  "canvasMouseMove rect event s =
     (if mouseDown s then
        (case refreshTimelineState (dragView event s) of
           (Some e, s) \<Rightarrow> (Some e, [], s)
         | (None, s) \<Rightarrow> (case redrawTimeline s of (err, s) \<Rightarrow> (err, [], s)))
      else hoverMove (getMousePos rect event) s)"

section \<open>An example visualizer\<close>

text \<open>
  A canvas of 1000 by 400 pixels, constructed at the clock \<^verbatim>\<open>1000\<close>, then
  \<^verbatim>\<open>updateTimeline\<close> with the options \<^verbatim>\<open>{time: 0}\<close> on a timeline that resolves to the
  object \<^verbatim>\<open>A\<close> with the instances \<^verbatim>\<open>[5, 5.5)\<close> and \<^verbatim>\<open>[20, 30)\<close>. The state this
  reaches is \<open>exampleState\<close>, as \<open>construct_example\<close> and \<open>example_reached\<close> show. The
  layer of the object has the name \<^verbatim>\<open>0\<close>, the index of its row, so that
  \<^verbatim>\<open>drawLayerLabels\<close> does not throw and the calls return normally. The window is
  \<^verbatim>\<open>[0, 500]\<close> on a timeline 750 pixels wide that starts at the pixel 250, which is 1.5
  pixels per unit of time.
\<close>

definition exampleInstances :: "Instance list" where
  "exampleInstances = [\<lparr>inst_id = ''@A0'', start = 5, end' = Some (11 / 2)\<rparr>,
                       \<lparr>inst_id = ''@A1'', start = 20, end' = Some 30\<rparr>]"

definition exampleResolve :: "ResolveOptions \<Rightarrow> string ResolvedTimeline" where
  "exampleResolve opts = exampleTimeline exampleInstances"

definition exampleState :: "bool \<Rightarrow> string TimelineVisualizer" where
  "exampleState playhead =
     \<lparr>stepSize = 1,
      resolvedTimeline = Some (exampleTimeline exampleInstances),
      layerLabels = [(''0'', 0)],
      timelineState =
        [(''timelineObject:A:@A0'',
          \<lparr>width = 3 / 4, height = 60, left = 515 / 2, top_px = Some 0, visible = True\<rparr>),
         (''timelineObject:A:@A1'',
          \<lparr>width = 15, height = 60, left = 280, top_px = Some 0, visible = True\<rparr>)],
      hoveredObjectMap =
        [(''0'', [\<lparr>startX = 515 / 2, endX = 1033 / 4, name = ''timelineObject:A:@A0''\<rparr>,
                  \<lparr>startX = 280, endX = 295, name = ''timelineObject:A:@A1''\<rparr>])],
      layerLabelWidth = 250,
      canvasWidth = 1000,
      canvasHeight = 400,
      rowHeight = 60,
      rowsTotalHeight = 60,
      numberOfLayers = 1,
      timelineWidth = 750,
      timelineStart = 250,
      timelineObjectHeight = 60,
      drawTimeStart = 0,
      drawTimeEnd = 500,
      drawTimeRange = 500,
      scaledDrawTimeRange = 500,
      pixelsWidthPerUnitTime = 3 / 2,
      mouseDown = False,
      mouseLastX = undefined,
      lastScrollDirection = None,
      timelineZoom = 100,
      playHeadPlaying = False,
      playViewPort = False,
      drawPlayhead = playhead,
      playSpeed = 1,
      playHeadTime = 0,
      playHeadPosition = 250,
      updateDrawLastTime = 1000,
      hoveredOver = None,
      lastHoverAction = MOUSEOUT,
      lastHoveredName = []\<rparr>"

text \<open>The argument \<^verbatim>\<open>{}\<close> of \<^verbatim>\<open>setViewPort\<close>.\<close>

definition emptyViewPort :: ViewPort where
  "emptyViewPort =
     \<lparr>vp_timestamp = None, vp_zoom = None, vp_playPlayhead = None, vp_playheadTime = None,
      vp_playViewPort = None, vp_playSpeed = None\<rparr>"

lemmas draw_defs =
  getTimelineDrawState_def drawInstance_def instanceName_def createStateForObject_def
  showOnTimeline_def getObjectWidth_def getObjectOffsetFromTimelineStart_def
  getObjectOffsetFromTop_def

lemmas redraw_defs =
  redrawTimeline_def drawLayerLabels_def computePlayheadPosition_def timeToXCoord_def

lemmas layer_defs =
  updateLayerLabels_def getLayersToDraw_def collectLayers_def calculateRowHeight_def

lemmas viewport_defs =
  setViewPort_def setViewPortView_def setViewPortZoom_def setViewPortTimestamp_def
  setViewPortPlayViewPort_def updateScaledDrawTimeRange_def

lemmas hover_defs =
  canvasMouseMove_def hoverMove_def hoverBucket_def selectedRowKey_def decimal_int_def
  getMousePos_def hoverObject_def timelineMetaFromString_def

lemma constructed:
  "updateDraw now (initialFields c opts) = (None, (initialFields c opts)\<lparr>updateDrawLastTime := now\<rparr>)"
  by (simp add: updateDraw_def initialFields_def Let_def)

lemma construct_example:
  "construct ''canvas'' (Some (1000, 400)) \<lparr>opt_drawPlayhead = Some playhead\<rparr> 1000
   = Inr ((initialFields (1000, 400) \<lparr>opt_drawPlayhead = Some playhead\<rparr>)\<lparr>updateDrawLastTime := 1000\<rparr>)"
  by (simp add: construct_def constructed)

lemma resolveInto_example:
  "resolveInto exampleResolve mv (Some \<lparr>time = Some 0\<rparr>)
     ((initialFields c opts)\<lparr>updateDrawLastTime := now\<rparr>)
   = (exampleTimeline exampleInstances,
      (initialFields c opts)\<lparr>updateDrawLastTime := now,
        resolvedTimeline := Some (exampleTimeline exampleInstances),
        drawTimeRange := 500, drawTimeEnd := 500\<rparr>)"
  by (simp add: resolveInto_def initialFields_def Let_def exampleResolve_def defaultDrawRange_def
        constant_defs)

lemma example_reached:
  "updateTimeline exampleResolve mv (Some \<lparr>time = Some 0\<rparr>)
     ((initialFields (1000, 400) \<lparr>opt_drawPlayhead = Some playhead\<rparr>)\<lparr>updateDrawLastTime := 1000\<rparr>)
   = (None, exampleState playhead)"
  unfolding updateTimeline_def resolveInto_example prod.case
  by (simp add: layer_defs updateScaledDrawTimeRange_def draw_defs redraw_defs
        initialFields_def exampleTimeline_def exampleObject_def exampleInstances_def
        exampleState_def constant_defs Let_def)

section \<open>Properties of the layers\<close>

text \<open>
  The repository holds a second implementation of the visualizer, which draws with the
  library \<^verbatim>\<open>fabric\<close> and keeps a list of resolved timelines. Its \<^verbatim>\<open>getLayersToDraw\<close>
  collects the layer names of all of them in the same way and then sorts the array,
  \<^verbatim>\<open>layersArray.sort((a, b) => { if (a > b) return 1; if (a < b) return -1; return 0 })\<close>,
  before it numbers the layers. Strings are compared character by character, a proper
  prefix first.
\<close>

definition getLayersToDraw_sorted ::
  "'v ResolvedTimeline list \<Rightarrow> (string \<times> nat) list \<times> string list" where
  "getLayersToDraw_sorted timelines =
     (let layersArray = collectLayers (concat (map (\<lambda>timeline. map fst (layers timeline)) timelines));
          layersArray = sort layersArray;
          layerMap = fold (\<lambda>(layerName, index). AList.update layerName index)
                       (zip layersArray [0 ..< length layersArray]) []
      in (layerMap, layersArray))"

text \<open>A schedule whose \<^verbatim>\<open>layers\<close> has the keys \<^verbatim>\<open>b\<close> and \<^verbatim>\<open>a\<close>, in this order.\<close>

definition twoLayers :: "string ResolvedTimeline" where
  "twoLayers =
     \<lparr>classes = ''{}'', layers = [(''b'', [''B'']), (''a'', [''A''])], objects = [],
      options = ''{}'', statistics = ''{}''\<rparr>"

text \<open>
  In the sorting implementation the row indices follow the order of the layer names.
\<close>

lemma collectLayers_distinct_aux:
  "distinct acc \<Longrightarrow>
   distinct (fold (\<lambda>layerName layersArray.
                     if layerName \<in> set layersArray then layersArray else layersArray @ [layerName])
                  keys acc)"
  by (induction keys arbitrary: acc) auto

lemma collectLayers_distinct: "distinct (collectLayers keys)"
  by (simp add: collectLayers_def collectLayers_distinct_aux)

lemma map_of_fold_update:
  "distinct (map fst kvs) \<Longrightarrow>
   map_of (fold (\<lambda>(k, v). AList.update k v) kvs acc) k =
     (case map_of kvs k of Some v \<Rightarrow> Some v | None \<Rightarrow> map_of acc k)"
proof (induction kvs arbitrary: acc)
  case Nil
  then show ?case by simp
next
  case (Cons kv kvs)
  obtain k' v' where kv: "kv = (k', v')" by (cases kv)
  have "map_of kvs k' = None" using Cons.prems kv by (simp add: map_of_eq_None_iff)
  then show ?case using Cons kv by (auto simp: update_conv' split: option.splits)
qed

lemma index_map:
  assumes "distinct xs"
    and "map_of (fold (\<lambda>(k, v). AList.update k v) (zip xs [0 ..< length xs]) []) a = Some i"
  shows "i < length xs \<and> xs ! i = a"
proof -
  have d: "distinct (map fst (zip xs [0 ..< length xs]))" using assms(1) by simp
  have "map_of (zip xs [0 ..< length xs]) a = Some i"
    using assms(2) map_of_fold_update [OF d, of "[]" a] by (auto split: option.splits)
  then have "(a, i) \<in> set (zip xs [0 ..< length xs])" by (rule map_of_SomeD)
  then show ?thesis by (auto simp: set_zip)
qed

lemma getLayersToDraw_sorted_order:
  assumes "map_of (fst (getLayersToDraw_sorted timelines)) a = Some i"
    and "map_of (fst (getLayersToDraw_sorted timelines)) b = Some j"
    and "a < b"
  shows "i < j"
proof -
  let ?xs = "sort (collectLayers (concat (map (\<lambda>timeline. map fst (layers timeline)) timelines)))"
  have d: "distinct ?xs" by (simp add: collectLayers_distinct)
  have i: "i < length ?xs \<and> ?xs ! i = a" and j: "j < length ?xs \<and> ?xs ! j = b"
    using assms(1,2) index_map [OF d] by (simp_all add: getLayersToDraw_sorted_def Let_def)
  show ?thesis
  proof (rule ccontr)
    assume "\<not> i < j"
    then have "j \<le> i" by simp
    then have "?xs ! j \<le> ?xs ! i" using i by (intro sorted_nth_mono) simp_all
    then show False using i j assms(3) by simp
  qed
qed

text \<open>
  C7. The claim is that the row indices follow the lexicographic order of the layer
  names. \<^verbatim>\<open>getLayersToDraw\<close> numbers the keys of \<^verbatim>\<open>this._resolvedTimeline.layers\<close> in
  the order \<^verbatim>\<open>Object.keys\<close> gives them and does not sort: with the keys \<^verbatim>\<open>b\<close>, \<^verbatim>\<open>a\<close>
  the layer \<^verbatim>\<open>b\<close> gets row 0 and the layer \<^verbatim>\<open>a\<close> row 1, in any state of the visualizer,
  although \<^verbatim>\<open>a\<close> comes before \<^verbatim>\<open>b\<close>.
\<close>

theorem getLayersToDraw_keeps_key_order:
  "fst (getLayersToDraw s twoLayers) = ([(''b'', 0), (''a'', 1)], [''b'', ''a'']) \<and>
   map_of (fst (fst (getLayersToDraw s twoLayers))) ''a'' = Some 1 \<and>
   map_of (fst (fst (getLayersToDraw s twoLayers))) ''b'' = Some 0 \<and>
   (''a'' :: string) < ''b''"
  by (simp add: getLayersToDraw_def collectLayers_def twoLayers_def less_char_def)

section \<open>Properties of the draw state\<close>

text \<open>
  The pixels per unit of time of the viewport are
  \<^verbatim>\<open>timelineWidth / (drawTimeEnd - drawTimeStart)\<close>. The field
  \<^verbatim>\<open>_pixelsWidthPerUnitTime\<close> holds that quotient as of the last run of
  \<^verbatim>\<open>updateScaledDrawTimeRange\<close>, the only place that assigns it; \<^verbatim>\<open>updateTimeline\<close>
  derives the draw state right after such a run.
\<close>

lemma updateScaledDrawTimeRange_current:
  "pixelsWidthPerUnitTime (updateScaledDrawTimeRange s)
     = timelineWidth (updateScaledDrawTimeRange s)
         / (drawTimeEnd (updateScaledDrawTimeRange s) - drawTimeStart (updateScaledDrawTimeRange s))"
  by (simp add: updateScaledDrawTimeRange_def)

lemma exampleState_current:
  "pixelsWidthPerUnitTime (exampleState playhead)
     = timelineWidth (exampleState playhead)
         / (drawTimeEnd (exampleState playhead) - drawTimeStart (exampleState playhead))"
  by (simp add: exampleState_def)

text \<open>
  C9, as stated: the stored width is \<^verbatim>\<open>(end - max(start, drawTimeStart)) * pixelsPerUnitTime\<close>
  floored to a minimum of 1 pixel. In the example the instance \<^verbatim>\<open>[5, 5.5)\<close> is visible, at
  \<^verbatim>\<open>750 / (500 - 0) = 1.5\<close> pixels per unit of time, and the draw state stored for it has
  the width \<^verbatim>\<open>0.75\<close>, where the claim gives \<^verbatim>\<open>1\<close>.
\<close>

theorem createStateForObject_width_counterexample:
  "showOnTimeline (exampleState False) 5 (Some (11 / 2)) \<and>
   map_option width (map_of (timelineState (exampleState False)) ''timelineObject:A:@A0'')
     = Some (3 / 4) \<and>
   width (createStateForObject (exampleState False) ''0'' 5 (Some (11 / 2))) = 3 / 4 \<and>
   max 1 ((11 / 2 - max 5 (drawTimeStart (exampleState False)))
            * pixelsWidthPerUnitTime (exampleState False)) = 1 \<and>
   max 1 ((11 / 2 - max 5 (drawTimeStart (exampleState False)))
            * (timelineWidth (exampleState False)
                 / (drawTimeEnd (exampleState False) - drawTimeStart (exampleState False)))) = 1"
  by (simp add: exampleState_def draw_defs)

text \<open>
  C9, amended: in a viewport with \<^verbatim>\<open>drawTimeStart < drawTimeEnd\<close> whose stored pixels per
  unit of time are current, that is equal to
  \<^verbatim>\<open>timelineWidth / (drawTimeEnd - drawTimeStart)\<close>, an instance with an end that is
  neither \<^verbatim>\<open>null\<close> nor \<^verbatim>\<open>0\<close> and that passes the visibility test gets a visible draw state
  whose width is
  \<^verbatim>\<open>(end - max(start, drawTimeStart)) * timelineWidth / (drawTimeEnd - drawTimeStart)\<close>,
  with no floor. A state in which the stored field lags behind the window, and an end of
  \<^verbatim>\<open>0\<close>, are outside the statement.
\<close>

theorem createStateForObject_width:
  assumes "showOnTimeline s startTime (Some e)" and "e \<noteq> 0"
    and "drawTimeStart s < drawTimeEnd s"
    and "pixelsWidthPerUnitTime s = timelineWidth s / (drawTimeEnd s - drawTimeStart s)"
  shows "visible (createStateForObject s layerName startTime (Some e)) \<and>
         width (createStateForObject s layerName startTime (Some e))
           = (e - max startTime (drawTimeStart s))
               * (timelineWidth s / (drawTimeEnd s - drawTimeStart s))"
  using assms by (simp add: createStateForObject_def getObjectWidth_def Let_def max_def)

theorem createStateForObject_width_witness:
  "showOnTimeline (exampleState False) 5 (Some (11 / 2)) \<and> (11 / 2 :: real) \<noteq> 0 \<and>
   drawTimeStart (exampleState False) < drawTimeEnd (exampleState False) \<and>
   pixelsWidthPerUnitTime (exampleState False)
     = timelineWidth (exampleState False)
         / (drawTimeEnd (exampleState False) - drawTimeStart (exampleState False)) \<and>
   visible (createStateForObject (exampleState False) ''0'' 5 (Some (11 / 2))) \<and>
   width (createStateForObject (exampleState False) ''0'' 5 (Some (11 / 2))) = 3 / 4"
  using createStateForObject_width [of "exampleState False" 5 "11 / 2" "''0''"]
  by (simp add: showOnTimeline_def exampleState_def)

section \<open>Properties of the viewport\<close>

text \<open>
  C1, as stated: a call of \<^verbatim>\<open>setViewPort\<close> that sets a field of the playhead while the
  playhead is disabled raises an error and leaves the whole state unchanged, also when the
  argument supplies a zoom. In the example, without playhead, the call with
  \<^verbatim>\<open>{zoom: 200, playSpeed: 2}\<close> raises the error, and the state it leaves has the zoom
  \<^verbatim>\<open>200\<close> instead of \<^verbatim>\<open>100\<close> and the end of the window \<^verbatim>\<open>1250\<close> instead of \<^verbatim>\<open>500\<close>.
\<close>

theorem setViewPort_partial_change_counterexample:
  "\<not> drawPlayhead (exampleState False) \<and>
   fst (setViewPort (emptyViewPort\<lparr>vp_zoom := Some 200, vp_playSpeed := Some 2\<rparr>) (exampleState False))
     = Some (Error ''setViewPort: viewPort.playSpeed was set, but drawPlayhead was not set in constructor'') \<and>
   timelineZoom (exampleState False) = 100 \<and>
   timelineZoom (snd (setViewPort (emptyViewPort\<lparr>vp_zoom := Some 200, vp_playSpeed := Some 2\<rparr>)
                        (exampleState False))) = 200 \<and>
   drawTimeEnd (exampleState False) = 500 \<and>
   drawTimeEnd (snd (setViewPort (emptyViewPort\<lparr>vp_zoom := Some 200, vp_playSpeed := Some 2\<rparr>)
                       (exampleState False))) = 1250"
  by (simp add: exampleState_def viewport_defs emptyViewPort_def)

lemma setViewPortView_playhead_fields:
  "drawPlayhead (snd (setViewPortView viewPort s)) = drawPlayhead s \<and>
   playSpeed (snd (setViewPortView viewPort s)) = playSpeed s \<and>
   playHeadPlaying (snd (setViewPortView viewPort s)) = playHeadPlaying s \<and>
   playHeadTime (snd (setViewPortView viewPort s)) = playHeadTime s \<and>
   playHeadPosition (snd (setViewPortView viewPort s)) = playHeadPosition s"
  by (simp add: setViewPortView_def setViewPortZoom_def setViewPortTimestamp_def
        setViewPortPlayViewPort_def updateScaledDrawTimeRange_def Let_def split: option.splits)

lemma setViewPortView_nothing:
  "vp_zoom viewPort = None \<Longrightarrow> (\<forall>t. vp_timestamp viewPort = Some t \<longrightarrow> t \<le> 0) \<Longrightarrow>
   vp_playViewPort viewPort = None \<Longrightarrow> setViewPortView viewPort s = (False, s)"
  by (auto simp: setViewPortView_def setViewPortZoom_def setViewPortTimestamp_def
        setViewPortPlayViewPort_def split: option.splits)

text \<open>
  C1, amended: a call of \<^verbatim>\<open>setViewPort\<close> that sets \<^verbatim>\<open>playSpeed\<close>, \<^verbatim>\<open>playPlayhead\<close> or
  \<^verbatim>\<open>playheadTime\<close> while the playhead is disabled raises an error; the state it leaves is
  the one after the zoom, the timestamp and \<^verbatim>\<open>playViewPort\<close> of the argument have been
  applied; the speed, the playing flag, the time and the position of the playhead keep
  their values; and the whole state is unchanged when the argument has no zoom, no
  positive timestamp and no \<^verbatim>\<open>playViewPort\<close>.
\<close>

theorem setViewPort_playhead_disabled:
  assumes "\<not> drawPlayhead s"
    and "vp_playSpeed viewPort \<noteq> None \<or> vp_playPlayhead viewPort \<noteq> None \<or>
         vp_playheadTime viewPort \<noteq> None"
  shows "(\<exists>msg. fst (setViewPort viewPort s) = Some (Error msg)) \<and>
         snd (setViewPort viewPort s) = snd (setViewPortView viewPort s) \<and>
         playSpeed (snd (setViewPort viewPort s)) = playSpeed s \<and>
         playHeadPlaying (snd (setViewPort viewPort s)) = playHeadPlaying s \<and>
         playHeadTime (snd (setViewPort viewPort s)) = playHeadTime s \<and>
         playHeadPosition (snd (setViewPort viewPort s)) = playHeadPosition s \<and>
         (vp_zoom viewPort = None \<and> (\<forall>t. vp_timestamp viewPort = Some t \<longrightarrow> t \<le> 0) \<and>
          vp_playViewPort viewPort = None \<longrightarrow> snd (setViewPort viewPort s) = s)"
proof -
  obtain changed s' where view: "setViewPortView viewPort s = (changed, s')"
    by (cases "setViewPortView viewPort s")
  have fields: "\<not> drawPlayhead s'" "playSpeed s' = playSpeed s" "playHeadPlaying s' = playHeadPlaying s"
    "playHeadTime s' = playHeadTime s" "playHeadPosition s' = playHeadPosition s"
    using setViewPortView_playhead_fields [of viewPort s] view assms(1) by simp_all
  have raised: "(\<exists>msg. fst (setViewPort viewPort s) = Some (Error msg)) \<and>
                snd (setViewPort viewPort s) = s'"
    using assms(2) fields(1) view
    by (auto simp: setViewPort_def split: option.splits)
  moreover have "vp_zoom viewPort = None \<and> (\<forall>t. vp_timestamp viewPort = Some t \<longrightarrow> t \<le> 0) \<and>
                 vp_playViewPort viewPort = None \<longrightarrow> s' = s"
    using setViewPortView_nothing [of viewPort s] view by auto
  ultimately show ?thesis using fields view by simp
qed

theorem setViewPort_playhead_disabled_witness:
  "\<not> drawPlayhead (exampleState False) \<and>
   vp_playSpeed (emptyViewPort\<lparr>vp_playSpeed := Some 2\<rparr>) \<noteq> None \<and>
   vp_zoom (emptyViewPort\<lparr>vp_playSpeed := Some 2\<rparr>) = None \<and>
   vp_timestamp (emptyViewPort\<lparr>vp_playSpeed := Some 2\<rparr>) = None \<and>
   vp_playViewPort (emptyViewPort\<lparr>vp_playSpeed := Some 2\<rparr>) = None \<and>
   (\<exists>msg. fst (setViewPort (emptyViewPort\<lparr>vp_playSpeed := Some 2\<rparr>) (exampleState False)) = Some (Error msg)) \<and>
   snd (setViewPort (emptyViewPort\<lparr>vp_playSpeed := Some 2\<rparr>) (exampleState False)) = exampleState False"
proof -
  have off: "\<not> drawPlayhead (exampleState False)"
    by (simp add: exampleState_def)
  have given: "vp_playSpeed (emptyViewPort\<lparr>vp_playSpeed := Some 2\<rparr>) \<noteq> None \<or>
               vp_playPlayhead (emptyViewPort\<lparr>vp_playSpeed := Some 2\<rparr>) \<noteq> None \<or>
               vp_playheadTime (emptyViewPort\<lparr>vp_playSpeed := Some 2\<rparr>) \<noteq> None"
    by simp
  have no_view: "vp_zoom (emptyViewPort\<lparr>vp_playSpeed := Some 2\<rparr>) = None \<and>
                 (\<forall>t. vp_timestamp (emptyViewPort\<lparr>vp_playSpeed := Some 2\<rparr>) = Some t \<longrightarrow> t \<le> 0) \<and>
                 vp_playViewPort (emptyViewPort\<lparr>vp_playSpeed := Some 2\<rparr>) = None"
    by (simp add: emptyViewPort_def)
  note result = setViewPort_playhead_disabled [OF off given]
  have raised: "\<exists>msg. fst (setViewPort (emptyViewPort\<lparr>vp_playSpeed := Some 2\<rparr>) (exampleState False))
                        = Some (Error msg)"
    using result by (rule conjunct1)
  have kept: "vp_zoom (emptyViewPort\<lparr>vp_playSpeed := Some 2\<rparr>) = None \<and>
        (\<forall>t. vp_timestamp (emptyViewPort\<lparr>vp_playSpeed := Some 2\<rparr>) = Some t \<longrightarrow> t \<le> 0) \<and>
        vp_playViewPort (emptyViewPort\<lparr>vp_playSpeed := Some 2\<rparr>) = None \<longrightarrow>
        snd (setViewPort (emptyViewPort\<lparr>vp_playSpeed := Some 2\<rparr>) (exampleState False)) = exampleState False"
    using result by (elim conjE)
  have unchanged:
    "snd (setViewPort (emptyViewPort\<lparr>vp_playSpeed := Some 2\<rparr>) (exampleState False)) = exampleState False"
    by (rule mp [OF kept no_view])
  show ?thesis using off raised unchanged by (simp add: emptyViewPort_def)
qed

text \<open>
  The two mappings are inverse to each other, on the times strictly inside the window, in
  a state where the scaled range is the length of the window and the timeline has a
  positive width.
\<close>

lemma roundtrip_consistent:
  assumes "scaledDrawTimeRange s = drawTimeEnd s - drawTimeStart s"
    and "0 < timelineWidth s" and "drawTimeStart s < t" and "t < drawTimeEnd s"
  shows "cursorPosToTime s (timeToXCoord s t) = t"
proof -
  let ?r = "(t - drawTimeStart s) / (drawTimeEnd s - drawTimeStart s)"
  have d: "0 < drawTimeEnd s - drawTimeStart s" using assms(3,4) by simp
  have r: "0 < ?r" "?r < 1" using assms(3,4) d by simp_all
  have x: "timeToXCoord s t = ?r * timelineWidth s + timelineStart s"
    using assms(3,4) by (simp add: timeToXCoord_def)
  have "0 < ?r * timelineWidth s" using r(1) assms(2) by (rule mult_pos_pos)
  moreover have "?r * timelineWidth s < 1 * timelineWidth s"
    using r(2) assms(2) by (rule mult_strict_right_mono)
  ultimately have inside: "\<not> (timeToXCoord s t \<le> timelineStart s \<or>
                               timeToXCoord s t \<ge> timelineStart s + timelineWidth s)"
    using x by simp
  have "getCursorPositionAcrossTimeline s (timeToXCoord s t) = ?r"
    using inside x assms(2) by (simp add: getCursorPositionAcrossTimeline_def)
  then have "cursorPosToTime s (timeToXCoord s t)
               = drawTimeStart s + (drawTimeEnd s - drawTimeStart s) * ?r"
    using inside assms(1) by (simp add: cursorPosToTime_def)
  also have "\<dots> = t" using d by simp
  finally show ?thesis .
qed

text \<open>
  C5. The claim is the round trip in every reachable state. \<^verbatim>\<open>setViewPort\<close> with a zoom
  assigns \<^verbatim>\<open>this._drawTimeEnd = this._timelineStart + this._scaledDrawTimeRange\<close>, the
  pixel position of the timeline where the branch of the timestamp uses
  \<^verbatim>\<open>this._drawTimeStart\<close>. In the example, with playhead, the call with
  \<^verbatim>\<open>{zoom: 200, playheadTime: 0}\<close> returns normally and leaves the window \<^verbatim>\<open>[0, 1250]\<close>
  with the scaled range \<^verbatim>\<open>1000\<close>; the time \<^verbatim>\<open>312.5\<close> maps to the pixel \<^verbatim>\<open>437.5\<close>, and
  that pixel maps back to the time \<^verbatim>\<open>250\<close>.
\<close>

theorem roundtrip_after_zoom:
  "fst (setViewPort (emptyViewPort\<lparr>vp_zoom := Some 200, vp_playheadTime := Some 0\<rparr>)
          (exampleState True)) = None \<and>
   drawTimeStart (snd (setViewPort (emptyViewPort\<lparr>vp_zoom := Some 200, vp_playheadTime := Some 0\<rparr>)
                         (exampleState True))) = 0 \<and>
   drawTimeEnd (snd (setViewPort (emptyViewPort\<lparr>vp_zoom := Some 200, vp_playheadTime := Some 0\<rparr>)
                       (exampleState True))) = 1250 \<and>
   scaledDrawTimeRange (snd (setViewPort (emptyViewPort\<lparr>vp_zoom := Some 200, vp_playheadTime := Some 0\<rparr>)
                               (exampleState True))) = 1000 \<and>
   timeToXCoord (snd (setViewPort (emptyViewPort\<lparr>vp_zoom := Some 200, vp_playheadTime := Some 0\<rparr>)
                        (exampleState True))) (625 / 2) = 875 / 2 \<and>
   cursorPosToTime (snd (setViewPort (emptyViewPort\<lparr>vp_zoom := Some 200, vp_playheadTime := Some 0\<rparr>)
                           (exampleState True))) (875 / 2) = 250"
  by (simp add: exampleState_def viewport_defs emptyViewPort_def redraw_defs cursorPosToTime_def
        getCursorPositionAcrossTimeline_def Let_def)

text \<open>
  The start of the window is \<^verbatim>\<open>0\<close> after the construction. Once \<^verbatim>\<open>updateTimeline\<close> has
  assigned the window (all the fields read here are then numbers), it stays at or above
  \<^verbatim>\<open>0\<close> through a pan, a zoom under the cursor and \<^verbatim>\<open>setViewPort\<close>; through
  \<^verbatim>\<open>updateDraw\<close> it does when the speed is not negative and the clock has not gone back.
  The pan divides by the stored pixels per unit of time, hence the hypothesis that they
  are not \<^verbatim>\<open>0\<close>.
\<close>

lemma canvasScrollByDeltaX_start_nonneg:
  "0 \<le> drawTimeStart s \<Longrightarrow> pixelsWidthPerUnitTime s \<noteq> 0 \<Longrightarrow>
   0 \<le> drawTimeStart (canvasScrollByDeltaX dx s)"
  by (simp add: canvasScrollByDeltaX_def Let_def)

lemma zoomUnderCursor_start_nonneg: "0 \<le> drawTimeStart (zoomUnderCursor cursorX s)"
  by (simp add: zoomUnderCursor_def Let_def updateScaledDrawTimeRange_def)

lemma redrawTimeline_start: "drawTimeStart (snd (redrawTimeline s)) = drawTimeStart s"
  by (simp add: redrawTimeline_def computePlayheadPosition_def Let_def split: option.splits)

lemma computePlayheadPosition_start: "drawTimeStart (snd (computePlayheadPosition s)) = drawTimeStart s"
  by (simp add: computePlayheadPosition_def Let_def)

lemma setViewPortView_start_nonneg:
  "0 \<le> drawTimeStart s \<Longrightarrow> 0 \<le> drawTimeStart (snd (setViewPortView viewPort s))"
  by (simp add: setViewPortView_def setViewPortZoom_def setViewPortTimestamp_def
        setViewPortPlayViewPort_def updateScaledDrawTimeRange_def Let_def split: option.splits)

lemma setViewPort_start_nonneg:
  assumes "0 \<le> drawTimeStart s"
  shows "0 \<le> drawTimeStart (snd (setViewPort viewPort s))"
proof -
  obtain changed s' where view: "setViewPortView viewPort s = (changed, s')"
    by (cases "setViewPortView viewPort s")
  then have "0 \<le> drawTimeStart s'"
    using setViewPortView_start_nonneg [OF assms, of viewPort] by simp
  then show ?thesis
    by (simp add: setViewPort_def view redrawTimeline_start computePlayheadPosition_start Let_def
          split: option.splits)
qed

lemma computePlayheadPosition_start_of:
  "computePlayheadPosition s = (moved, s') \<Longrightarrow> drawTimeStart s' = drawTimeStart s"
  using computePlayheadPosition_start [of s] by simp

lemma playhead_redraw_start:
  "drawTimeStart (snd (case computePlayheadPosition s of
                         (moved, s') \<Rightarrow> if moved then redrawTimeline s' else (None, s')))
   = drawTimeStart s"
  by (cases "computePlayheadPosition s")
     (auto simp: redrawTimeline_start dest: computePlayheadPosition_start_of)

lemma updateDraw_start:
  "drawTimeStart (snd (updateDraw now s)) = drawTimeStart s \<or>
   drawTimeStart (snd (updateDraw now s)) =
     drawTimeStart s +
     playSpeed s * ((if updateDrawLastTime s > 0 then now - updateDrawLastTime s else 1) / 1000)"
  unfolding updateDraw_def Let_def
  by (simp add: redrawTimeline_start playhead_redraw_start)

lemma updateDraw_start_nonneg:
  assumes "0 \<le> drawTimeStart s" and "0 \<le> playSpeed s" and "updateDrawLastTime s \<le> now"
  shows "0 \<le> drawTimeStart (snd (updateDraw now s))"
proof -
  have "0 \<le> playSpeed s * ((if updateDrawLastTime s > 0 then now - updateDrawLastTime s else 1) / 1000)"
    using assms(2,3) by simp
  then show ?thesis using assms(1) updateDraw_start [of now s] by auto
qed

lemma initialFields_start: "drawTimeStart (initialFields canvas opts) = 0"
  by (simp add: initialFields_def)

lemma construct_start: "construct canvasId canvas opts now = Inr s \<Longrightarrow> drawTimeStart s = 0"
  by (auto simp: construct_def constructed initialFields_start split: option.splits)

text \<open>
  C6. The claim is that \<^verbatim>\<open>drawTimeStart \<ge> 0\<close> is kept by every operation, also by the
  update tick with any play speed. \<^verbatim>\<open>updateDraw\<close> adds \<^verbatim>\<open>playSpeed * dt\<close> to the start
  without the clamp that the pan and the zoom have. In the example, with playhead, the
  call of \<^verbatim>\<open>setViewPort\<close> with \<^verbatim>\<open>{playSpeed: -1, playViewPort: true, playheadTime: 0}\<close>
  returns normally with the start still \<^verbatim>\<open>0\<close>, and the tick one second later leaves the
  start at \<^verbatim>\<open>-1\<close>.
\<close>

theorem updateDraw_negative_speed:
  "fst (setViewPort (emptyViewPort\<lparr>vp_playSpeed := Some (- 1), vp_playViewPort := Some True,
                                   vp_playheadTime := Some 0\<rparr>) (exampleState True)) = None \<and>
   drawTimeStart (snd (setViewPort (emptyViewPort\<lparr>vp_playSpeed := Some (- 1), vp_playViewPort := Some True,
                                                  vp_playheadTime := Some 0\<rparr>) (exampleState True))) = 0 \<and>
   drawTimeStart
     (snd (updateDraw 2000
             (snd (setViewPort (emptyViewPort\<lparr>vp_playSpeed := Some (- 1), vp_playViewPort := Some True,
                                              vp_playheadTime := Some 0\<rparr>) (exampleState True))))) = - 1"
  by (simp add: exampleState_def viewport_defs emptyViewPort_def redraw_defs updateDraw_def Let_def)

section \<open>Properties of the hover\<close>

text \<open>
  The test of the hover on one rectangle of the hover map:
  \<^verbatim>\<open>object.startX <= mousePos.x && object.endX >= mousePos.x\<close>.
\<close>

definition underPointer :: "real \<times> real \<Rightarrow> HoverMapData \<Rightarrow> bool" where
  "underPointer mousePos obj \<longleftrightarrow> startX obj \<le> fst mousePos \<and> endX obj \<ge> fst mousePos"

text \<open>
  The pointer is over no rectangle but those of the name \<open>n\<close>: in the bucket that the
  hover selects for the pointer, every rectangle under the pointer has that name. (A
  pointer over no rectangle at all is such a pointer.)
\<close>

definition pointerOnlyOver :: "string \<Rightarrow> real \<times> real \<Rightarrow> 'v TimelineVisualizer \<Rightarrow> bool" where
  "pointerOnlyOver n mousePos s \<longleftrightarrow>
     (case hoverBucket s (snd mousePos) of
        None \<Rightarrow> True
      | Some hoverMapData \<Rightarrow> list_all (\<lambda>obj. underPointer mousePos obj \<longrightarrow> name obj = n) hoverMapData)"

text \<open>
  A sequence of \<^verbatim>\<open>mousemove\<close> events, each handled by \<^verbatim>\<open>canvasMouseMove\<close> in the state
  the one before has left (an error raised by one handler does not stop the next event):
  the events emitted, in order, and the last state.
\<close>

fun mouseMoves ::
  "real \<times> real \<Rightarrow> MouseEvent list \<Rightarrow> 'v TimelineVisualizer \<Rightarrow> 'v HoverEvent list \<times> 'v TimelineVisualizer" where
  "mouseMoves rect [] s = ([], s)"
| "mouseMoves rect (e # es) s =
     (case canvasMouseMove rect e s of
        (err, events, s') \<Rightarrow>
          (case mouseMoves rect es s' of (events', s'') \<Rightarrow> (events @ events', s'')))"

text \<open>
  Through a sequence of moves the pointer is over no rectangle but those of the name
  \<open>n\<close>, each move taken in the state the one before has left.
\<close>

fun pointerStaysOver :: "string \<Rightarrow> real \<times> real \<Rightarrow> MouseEvent list \<Rightarrow> 'v TimelineVisualizer \<Rightarrow> bool" where
  "pointerStaysOver n rect [] s = True"
| "pointerStaysOver n rect (e # es) s =
     (pointerOnlyOver n (getMousePos rect e) s \<and>
      pointerStaysOver n rect es (snd (snd (canvasMouseMove rect e s))))"

text \<open>
  The example after the pointer has moved to \<^verbatim>\<open>(285, 10)\<close>, over the rectangle of the
  instance \<^verbatim>\<open>@A1\<close>.
\<close>

definition exampleHover :: "string HoveredObject" where
  "exampleHover =
     \<lparr>h_object = exampleObject exampleInstances,
      h_instance = Some \<lparr>inst_id = ''@A1'', start = 20, end' = Some 30\<rparr>,
      pointer = (285, 10)\<rparr>"

definition exampleHovered :: "string TimelineVisualizer" where
  "exampleHovered =
     (exampleState False)\<lparr>hoveredOver := Some exampleHover, lastHoverAction := MOUSEIN,
                           lastHoveredName := ''timelineObject:A:@A1''\<rparr>"

lemma hoverObject_error: "hoverObject p obj (Some e, found, events, s) = (Some e, found, events, s)"
  by (simp add: hoverObject_def)

lemma hoverObject_cases:
  assumes "hoverObject p obj (None, found, events, s) = (err', found', events', s')"
  shows "(\<not> underPointer p obj \<and> err' = None \<and> found' = found \<and> events' = events \<and> s' = s) \<or>
         (underPointer p obj \<and> found' \<and> events' = events \<and> s' = s \<and>
            (name obj = lastHoveredName s \<longrightarrow> err' = None)) \<or>
         (underPointer p obj \<and> found' \<and> err' = None \<and> name obj \<noteq> lastHoveredName s \<and>
            (\<exists>h. events' = events @ [Hover h] \<and>
                 s' = s\<lparr>hoveredOver := Some h, lastHoverAction := MOUSEIN,
                        lastHoveredName := name obj\<rparr>))"
  using assms
  by (auto simp: hoverObject_def underPointer_def Let_def split: if_splits option.splits)


lemma fold_hoverObject_name:
  "list_all (\<lambda>obj. underPointer p obj \<longrightarrow> name obj = n) bucket \<Longrightarrow>
   fold (hoverObject p) bucket (err0, found0, events0, s0) = (err, found, events, s) \<Longrightarrow>
   (events = events0 \<and> s = s0) \<or> lastHoveredName s = n"
proof (induction bucket arbitrary: err0 found0 events0 s0)
  case Nil
  then show ?case by simp
next
  case (Cons obj bucket)
  obtain err1 found1 events1 s1 where
    step: "hoverObject p obj (err0, found0, events0, s0) = (err1, found1, events1, s1)"
    by (cases "hoverObject p obj (err0, found0, events0, s0)") auto
  have rest: "fold (hoverObject p) bucket (err1, found1, events1, s1) = (err, found, events, s)"
    using Cons.prems(2) step by simp
  have all: "list_all (\<lambda>obj. underPointer p obj \<longrightarrow> name obj = n) bucket"
    and this_one: "underPointer p obj \<longrightarrow> name obj = n"
    using Cons.prems(1) by simp_all
  have "(events1 = events0 \<and> s1 = s0) \<or> lastHoveredName s1 = n"
  proof (cases err0)
    case None
    then show ?thesis using hoverObject_cases [of p obj found0 events0 s0] step this_one by auto
  next
    case (Some e)
    then show ?thesis using step by (simp add: hoverObject_error)
  qed
  then show ?case using Cons.IH [OF all rest] by auto
qed

lemma fold_hoverObject_quiet:
  "list_all (\<lambda>obj. underPointer p obj \<longrightarrow> name obj = lastHoveredName s) bucket \<Longrightarrow>
   \<exists>found'. fold (hoverObject p) bucket (None, found, events, s) = (None, found', events, s)"
proof (induction bucket arbitrary: found)
  case Nil
  then show ?case by simp
next
  case (Cons obj bucket)
  have "hoverObject p obj (None, found, events, s) = (None, found \<or> underPointer p obj, events, s)"
    using Cons.prems by (auto simp: hoverObject_def underPointer_def)
  then show ?case using Cons.IH Cons.prems by simp
qed

lemma hoverMove_quiet:
  assumes "pointerOnlyOver (lastHoveredName s) p s" and "lastHoverAction s = MOUSEOUT"
  shows "snd (hoverMove p s) = ([], s)"
proof (cases "fst p > timelineStart s \<and> snd p < rowsTotalHeight s")
  case False
  then show ?thesis using assms(2) by (auto simp: hoverMove_def constant_defs)
next
  case True
  show ?thesis
  proof (cases "hoverBucket s (snd p)")
    case None
    then show ?thesis using True by (simp add: hoverMove_def)
  next
    case (Some bucket)
    then have "list_all (\<lambda>obj. underPointer p obj \<longrightarrow> name obj = lastHoveredName s) bucket"
      using assms(1) by (simp add: pointerOnlyOver_def)
    then obtain found' where
      "fold (hoverObject p) bucket (None, False, [], s) = (None, found', [], s)"
      using fold_hoverObject_quiet by blast
    then show ?thesis using True Some assms(2) by (simp add: hoverMove_def constant_defs)
  qed
qed

lemma hoverMove_hover:
  assumes "pointerOnlyOver n p s0" and "hoverMove p s0 = (err, events, s1)"
    and "Hover h \<in> set events"
  shows "lastHoveredName s1 = n"
proof -
  have inside: "fst p > timelineStart s0 \<and> snd p < rowsTotalHeight s0"
    using assms(2,3) by (auto simp: hoverMove_def split: if_splits)
  then obtain bucket where bucket: "hoverBucket s0 (snd p) = Some bucket"
    using assms(2,3) by (cases "hoverBucket s0 (snd p)") (auto simp: hoverMove_def split: if_splits)
  obtain err' found events' s' where
    f: "fold (hoverObject p) bucket (None, False, [], s0) = (err', found, events', s')"
    by (cases "fold (hoverObject p) bucket (None, False, [], s0)") auto
  have "list_all (\<lambda>obj. underPointer p obj \<longrightarrow> name obj = n) bucket"
    using assms(1) bucket by (simp add: pointerOnlyOver_def)
  then have name: "(events' = [] \<and> s' = s0) \<or> lastHoveredName s' = n"
    using fold_hoverObject_name f by blast
  have "Hover h \<in> set events'" and "lastHoveredName s1 = lastHoveredName s'"
    using assms(2,3) inside bucket f by (auto simp: hoverMove_def split: if_splits)
  then show ?thesis using name by auto
qed

lemma canvasMouseMove_events:
  "canvasMouseMove rect e s = (err, events, s') \<Longrightarrow> events \<noteq> [] \<Longrightarrow>
   \<not> mouseDown s \<and> hoverMove (getMousePos rect e) s = (err, events, s')"
  by (auto simp: canvasMouseMove_def split: if_splits prod.splits option.splits)

lemma hoverMove_same_name:
  assumes "pointerOnlyOver (lastHoveredName s) p s"
  shows "snd (hoverMove p s) = ([], s) \<or>
         (lastHoverAction s = MOUSEIN \<and>
          hoverMove p s = (None, [HoverCleared], s\<lparr>lastHoverAction := MOUSEOUT\<rparr>))"
proof (cases "fst p > timelineStart s \<and> snd p < rowsTotalHeight s")
  case False
  then show ?thesis by (auto simp: hoverMove_def)
next
  case True
  show ?thesis
  proof (cases "hoverBucket s (snd p)")
    case None
    then show ?thesis using True by (simp add: hoverMove_def)
  next
    case (Some bucket)
    then have "list_all (\<lambda>obj. underPointer p obj \<longrightarrow> name obj = lastHoveredName s) bucket"
      using assms by (simp add: pointerOnlyOver_def)
    then obtain found' where
      "fold (hoverObject p) bucket (None, False, [], s) = (None, found', [], s)"
      using fold_hoverObject_quiet by blast
    then show ?thesis using True Some by (simp add: hoverMove_def)
  qed
qed

lemma mouseMoves_same_name:
  assumes "lastHoveredName s = n" and "\<not> mouseDown s"
    and "pointerStaysOver n rect es s" and "mouseMoves rect es s = (events, s')"
  shows "lastHoveredName s' = n \<and> \<not> mouseDown s' \<and>
         (HoverCleared \<in> set events \<or> lastHoverAction s = MOUSEOUT \<longrightarrow>
            lastHoverAction s' = MOUSEOUT)"
  using assms
proof (induction es arbitrary: s events)
  case Nil
  then show ?case by simp
next
  case (Cons e es)
  obtain err ev s1 where step: "canvasMouseMove rect e s = (err, ev, s1)"
    by (cases "canvasMouseMove rect e s") auto
  obtain evs where rest: "mouseMoves rect es s1 = (evs, s')" and events: "events = ev @ evs"
    using Cons.prems(4) step by (auto split: prod.splits)
  have over: "pointerOnlyOver (lastHoveredName s) (getMousePos rect e) s"
    and stays: "pointerStaysOver n rect es s1"
    using Cons.prems(1,3) step by simp_all
  have hov: "hoverMove (getMousePos rect e) s = (err, ev, s1)"
    using step Cons.prems(2) by (simp add: canvasMouseMove_def)
  have cases: "(ev = [] \<and> s1 = s) \<or>
               (ev = [HoverCleared] \<and> s1 = s\<lparr>lastHoverAction := MOUSEOUT\<rparr>)"
    using hoverMove_same_name [OF over] hov by auto
  then have inv: "lastHoveredName s1 = n" "\<not> mouseDown s1"
    and out: "ev \<noteq> [] \<or> lastHoverAction s = MOUSEOUT \<longrightarrow> lastHoverAction s1 = MOUSEOUT"
    and only: "ev = [] \<or> ev = [HoverCleared]"
    using Cons.prems(1,2) by auto
  have "lastHoveredName s' = n \<and> \<not> mouseDown s' \<and>
        (HoverCleared \<in> set evs \<or> lastHoverAction s1 = MOUSEOUT \<longrightarrow> lastHoverAction s' = MOUSEOUT)"
    using Cons.IH [OF inv stays rest] .
  then show ?case using events out only by auto
qed

lemma fold_hoverObject_mouseDown:
  "fold (hoverObject p) bucket (err0, found0, events0, s0) = (err, found, events, s) \<Longrightarrow>
   mouseDown s = mouseDown s0"
proof (induction bucket arbitrary: err0 found0 events0 s0)
  case Nil
  then show ?case by simp
next
  case (Cons obj bucket)
  obtain err1 found1 events1 s1 where
    step: "hoverObject p obj (err0, found0, events0, s0) = (err1, found1, events1, s1)"
    by (cases "hoverObject p obj (err0, found0, events0, s0)") auto
  have "mouseDown s1 = mouseDown s0"
  proof (cases err0)
    case None
    then show ?thesis using hoverObject_cases [of p obj found0 events0 s0] step by auto
  next
    case (Some e)
    then show ?thesis using step by (simp add: hoverObject_error)
  qed
  then show ?case using Cons.IH Cons.prems step by simp
qed

lemma hoverMove_mouseDown:
  assumes "hoverMove p s = (err, events, s')"
  shows "mouseDown s' = mouseDown s"
proof (cases "fst p > timelineStart s \<and> snd p < rowsTotalHeight s")
  case False
  then show ?thesis using assms by (auto simp: hoverMove_def split: if_splits)
next
  case True
  show ?thesis
  proof (cases "hoverBucket s (snd p)")
    case None
    then show ?thesis using True assms by (simp add: hoverMove_def)
  next
    case (Some bucket)
    obtain err' found events' s1 where
      f: "fold (hoverObject p) bucket (None, False, [], s) = (err', found, events', s1)"
      by (cases "fold (hoverObject p) bucket (None, False, [], s)") auto
    have "mouseDown s1 = mouseDown s" using fold_hoverObject_mouseDown [OF f] .
    moreover have "mouseDown s' = mouseDown s1"
      using assms True Some f by (auto simp: hoverMove_def split: if_splits)
    ultimately show ?thesis by simp
  qed
qed

text \<open>
  C10. A pointer move signals a hover for the rectangle named \<open>n\<close> (the pointer is over
  no rectangle of another name, and a hover event is emitted). Then the pointer makes any
  number of moves without entering a rectangle of another name, and among them a move
  signals that the hover is cleared. When the pointer then moves again over no rectangle
  but those named \<open>n\<close>, in particular when it returns into that rectangle, the move emits
  no event and leaves the state as it is: the name last hovered is still \<open>n\<close>, so the
  return is silent.
\<close>

theorem hover_reentry_silent:
  assumes "canvasMouseMove rect e1 s0 = (err1, events1, s1)"
    and "pointerOnlyOver n (getMousePos rect e1) s0"
    and "Hover h \<in> set events1"
    and "mouseMoves rect mid s1 = (events2, s2)"
    and "pointerStaysOver n rect mid s1"
    and "HoverCleared \<in> set events2"
    and "pointerOnlyOver n (getMousePos rect e3) s2"
  shows "snd (canvasMouseMove rect e3 s2) = ([], s2)"
proof -
  have "events1 \<noteq> []" using assms(3) by auto
  then have up: "\<not> mouseDown s0"
    and hov: "hoverMove (getMousePos rect e1) s0 = (err1, events1, s1)"
    using canvasMouseMove_events assms(1) by blast+
  have n1: "lastHoveredName s1 = n"
    using hoverMove_hover [OF assms(2) hov assms(3)] .
  have up1: "\<not> mouseDown s1"
    using hoverMove_mouseDown [OF hov] up by simp
  have "lastHoveredName s2 = n \<and> \<not> mouseDown s2 \<and>
        (HoverCleared \<in> set events2 \<or> lastHoverAction s1 = MOUSEOUT \<longrightarrow>
           lastHoverAction s2 = MOUSEOUT)"
    using mouseMoves_same_name [OF n1 up1 assms(5) assms(4)] .
  then have "lastHoveredName s2 = n" "\<not> mouseDown s2" "lastHoverAction s2 = MOUSEOUT"
    using assms(6) by simp_all
  then show ?thesis
    using assms(7) by (simp add: canvasMouseMove_def hoverMove_quiet)
qed

theorem hover_reentry_silent_witness:
  "canvasMouseMove (0, 0) \<lparr>clientX = 285, clientY = 10\<rparr> (exampleState False)
     = (None, [Hover exampleHover], exampleHovered) \<and>
   pointerOnlyOver ''timelineObject:A:@A1'' (getMousePos (0, 0) \<lparr>clientX = 285, clientY = 10\<rparr>)
     (exampleState False) \<and>
   mouseMoves (0, 0) [\<lparr>clientX = 290, clientY = 10\<rparr>, \<lparr>clientX = 400, clientY = 10\<rparr>,
                      \<lparr>clientX = 500, clientY = 10\<rparr>] exampleHovered
     = ([HoverCleared], exampleHovered\<lparr>lastHoverAction := MOUSEOUT\<rparr>) \<and>
   pointerStaysOver ''timelineObject:A:@A1'' (0, 0)
     [\<lparr>clientX = 290, clientY = 10\<rparr>, \<lparr>clientX = 400, clientY = 10\<rparr>,
      \<lparr>clientX = 500, clientY = 10\<rparr>] exampleHovered \<and>
   pointerOnlyOver ''timelineObject:A:@A1'' (getMousePos (0, 0) \<lparr>clientX = 285, clientY = 10\<rparr>)
     (exampleHovered\<lparr>lastHoverAction := MOUSEOUT\<rparr>) \<and>
   underPointer (getMousePos (0, 0) \<lparr>clientX = 285, clientY = 10\<rparr>)
     \<lparr>startX = 280, endX = 295, name = ''timelineObject:A:@A1''\<rparr> \<and>
   snd (canvasMouseMove (0, 0) \<lparr>clientX = 285, clientY = 10\<rparr>
          (exampleHovered\<lparr>lastHoverAction := MOUSEOUT\<rparr>))
     = ([], exampleHovered\<lparr>lastHoverAction := MOUSEOUT\<rparr>)"
proof -
  have step1: "canvasMouseMove (0, 0) \<lparr>clientX = 285, clientY = 10\<rparr> (exampleState False)
                 = (None, [Hover exampleHover], exampleHovered)"
    by (simp add: hover_defs exampleState_def exampleHovered_def exampleHover_def
          exampleTimeline_def exampleObject_def exampleInstances_def constant_defs Let_def)
  have over1: "pointerOnlyOver ''timelineObject:A:@A1''
                 (getMousePos (0, 0) \<lparr>clientX = 285, clientY = 10\<rparr>) (exampleState False)"
    by (simp add: pointerOnlyOver_def underPointer_def hoverBucket_def selectedRowKey_def
          decimal_int_def getMousePos_def exampleState_def)
  have inside: "canvasMouseMove (0, 0) \<lparr>clientX = 290, clientY = 10\<rparr> exampleHovered
                  = (None, [], exampleHovered)"
    by (simp add: hover_defs exampleState_def exampleHovered_def constant_defs)
  have leave: "canvasMouseMove (0, 0) \<lparr>clientX = 400, clientY = 10\<rparr> exampleHovered
                 = (None, [HoverCleared], exampleHovered\<lparr>lastHoverAction := MOUSEOUT\<rparr>)"
    by (simp add: hover_defs exampleState_def exampleHovered_def constant_defs)
  have outside: "canvasMouseMove (0, 0) \<lparr>clientX = 500, clientY = 10\<rparr>
                   (exampleHovered\<lparr>lastHoverAction := MOUSEOUT\<rparr>)
                   = (None, [], exampleHovered\<lparr>lastHoverAction := MOUSEOUT\<rparr>)"
    by (simp add: hover_defs exampleState_def exampleHovered_def constant_defs)
  have mid: "mouseMoves (0, 0) [\<lparr>clientX = 290, clientY = 10\<rparr>, \<lparr>clientX = 400, clientY = 10\<rparr>,
                                 \<lparr>clientX = 500, clientY = 10\<rparr>] exampleHovered
               = ([HoverCleared], exampleHovered\<lparr>lastHoverAction := MOUSEOUT\<rparr>)"
    by (simp add: inside leave outside)
  have over_in: "pointerOnlyOver ''timelineObject:A:@A1''
                   (getMousePos (0, 0) \<lparr>clientX = x, clientY = 10\<rparr>) exampleHovered"
    if "x = 290 \<or> x = 400" for x
    using that
    by (auto simp: pointerOnlyOver_def underPointer_def hoverBucket_def selectedRowKey_def
          decimal_int_def getMousePos_def exampleState_def exampleHovered_def)
  have over_out: "pointerOnlyOver ''timelineObject:A:@A1''
                    (getMousePos (0, 0) \<lparr>clientX = x, clientY = 10\<rparr>)
                    (exampleHovered\<lparr>lastHoverAction := MOUSEOUT\<rparr>)"
    if "x = 285 \<or> x = 500" for x
    using that
    by (auto simp: pointerOnlyOver_def underPointer_def hoverBucket_def selectedRowKey_def
          decimal_int_def getMousePos_def exampleState_def exampleHovered_def)
  have stays: "pointerStaysOver ''timelineObject:A:@A1'' (0, 0)
                 [\<lparr>clientX = 290, clientY = 10\<rparr>, \<lparr>clientX = 400, clientY = 10\<rparr>,
                  \<lparr>clientX = 500, clientY = 10\<rparr>] exampleHovered"
    by (simp add: inside leave outside over_in over_out)
  have over3: "pointerOnlyOver ''timelineObject:A:@A1''
                 (getMousePos (0, 0) \<lparr>clientX = 285, clientY = 10\<rparr>)
                 (exampleHovered\<lparr>lastHoverAction := MOUSEOUT\<rparr>)"
    by (simp add: over_out)
  have "snd (canvasMouseMove (0, 0) \<lparr>clientX = 285, clientY = 10\<rparr>
               (exampleHovered\<lparr>lastHoverAction := MOUSEOUT\<rparr>))
          = ([], exampleHovered\<lparr>lastHoverAction := MOUSEOUT\<rparr>)"
    using hover_reentry_silent [OF step1 over1 _ mid stays _ over3] by simp
  then show ?thesis using step1 over1 mid stays over3
    by (simp add: underPointer_def getMousePos_def)
qed

end
